theory Spec2Isabelle
  imports Main "HOL-Library.AList"
begin

section \<open>JavaScript values\<close>

text \<open>
  The progress record is a plain JavaScript object whose fields can hold any value that
  JSON can carry (an imported file or a stored text decides what arrives), so the
  fields are modelled as dynamically typed values. Numbers are integers; an array is
  represented by the object of its index properties, which is all the code under study
  can observe of it. An object is the association list of its own enumerable
  properties in insertion order.
\<close>

datatype jsval =
    JUndefined
  | JNull
  | JBool bool
  | JNum int
  | JStr string
  | JObj "(string \<times> jsval) list"

datatype js_error = TypeError | SyntaxError | TransportError

text \<open>Truthiness, as used by \<open>!\<close>, \<open>||\<close>, \<open>&&\<close> and \<open>if\<close>.\<close>

fun truthy :: "jsval \<Rightarrow> bool" where
  "truthy JUndefined = False"
| "truthy JNull = False"
| "truthy (JBool b) = b"
| "truthy (JNum n) = (n \<noteq> 0)"
| "truthy (JStr s) = (s \<noteq> [])"
| "truthy (JObj kvs) = True"

text \<open>\<open>a || b\<close> on values.\<close>

definition js_or :: "jsval \<Rightarrow> jsval \<Rightarrow> jsval" where
  "js_or a b = (if truthy a then a else b)"

text \<open>Decimal text of an array index, for the index properties of a string.\<close>

function show_nat :: "nat \<Rightarrow> string" where
  "show_nat n =
     (if n < 10 then [char_of (48 + n)]
      else show_nat (n div 10) @ [char_of (48 + n mod 10)])"
  by pat_completeness auto

termination
  by (relation "measure id") auto

declare show_nat.simps [simp del]

text \<open>
  The own enumerable properties of a value, as object spread and \<open>Object.keys\<close> see
  them: those of an object, the index properties of a string, none for the other
  primitives.
\<close>

fun own_props :: "jsval \<Rightarrow> (string \<times> jsval) list" where
  "own_props (JObj kvs) = kvs"
| "own_props (JStr s) = zip (map show_nat [0..<length s]) (map (\<lambda>c. JStr [c]) s)"
| "own_props JUndefined = []"
| "own_props JNull = []"
| "own_props (JBool b) = []"
| "own_props (JNum n) = []"

text \<open>\<open>Object.keys(v)\<close> raises a TypeError on \<open>undefined\<close> and \<open>null\<close>.\<close>

fun Object_keys :: "jsval \<Rightarrow> js_error + string list" where
  "Object_keys JUndefined = Inl TypeError"
| "Object_keys JNull = Inl TypeError"
| "Object_keys v = Inr (map fst (own_props v))"

text \<open>
  Object spread: \<open>{...a, ...b}\<close> copies the properties of \<open>a\<close>, then assigns those of
  \<open>b\<close> in order, a key already present keeping its place and taking the new value.
\<close>

definition assign_props :: "(string \<times> jsval) list \<Rightarrow> (string \<times> jsval) list \<Rightarrow> (string \<times> jsval) list" where
  "assign_props target src = fold (\<lambda>(k, v). AList.update k v) src target"

definition spread2 :: "jsval \<Rightarrow> jsval \<Rightarrow> jsval" where
  "spread2 a b = JObj (assign_props (assign_props [] (own_props a)) (own_props b))"

text \<open>Reading a property of an object literal: \<open>undefined\<close> when the key is absent.\<close>

definition get_prop :: "(string \<times> jsval) list \<Rightarrow> string \<Rightarrow> jsval" where
  "get_prop obj k = (case map_of obj k of None \<Rightarrow> JUndefined | Some v \<Rightarrow> v)"

section \<open>The progress record and its metadata\<close>

record sync_meta =
  lastModified :: int
  version :: int
  syncedAt :: "int option"
  hasLocalChanges :: bool

record app_state =
  province :: jsval
  industry :: jsval
  hiring :: jsval
  revenue :: jsval
  completed :: jsval
  meta :: sync_meta

text \<open>The row of table \<open>user_progress\<close>, with \<open>updated_at\<close> already read as milliseconds.\<close>

record remote_row =
  r_province :: jsval
  r_industry :: jsval
  r_hiring :: jsval
  r_revenue :: jsval
  r_completed :: jsval
  r_version :: int
  updated_at :: int

text \<open>\<open>loadDefaultState\<close>; the argument is the reading of \<open>Date.now()\<close>.\<close>

definition loadDefaultState :: "int \<Rightarrow> app_state" where
  "loadDefaultState now =
     \<lparr> province = JStr '''',
       industry = JStr ''general'',
       hiring = JStr ''no'',
       revenue = JStr ''gte30'',
       completed = JObj [],
       meta = \<lparr> lastModified = now, version = 1, syncedAt = None, hasLocalChanges = False \<rparr> \<rparr>"

text \<open>
  \<open>getState\<close>: the state object without its \<open>_meta\<close> property, as a fresh object.
\<close>

definition getState :: "app_state \<Rightarrow> (string \<times> jsval) list" where
  "getState s =
     [(''province'', province s), (''industry'', industry s), (''hiring'', hiring s),
      (''revenue'', revenue s), (''completed'', completed s)]"

section \<open>The runtime the managers run in\<close>

text \<open>
  \<open>JSON.parse\<close>, \<open>JSON.stringify\<close> and the text coercion of \<open>localStorage.setItem\<close>
  belong to the JavaScript runtime, not to the repository; they are parameters of the
  model. \<open>parse\<close> returns \<open>None\<close> where \<open>JSON.parse\<close> raises a SyntaxError. The
  \<open>_state_meta\<close> item is read through \<open>parse_meta\<close>, the typed view of the metadata
  object that \<open>persistLocal\<close> writes.
\<close>

record codec =
  parse :: "string \<Rightarrow> jsval option"
  stringify :: "jsval \<Rightarrow> string"
  parse_meta :: "string \<Rightarrow> sync_meta option"
  stringify_meta :: "sync_meta \<Rightarrow> string"
  to_text :: "jsval \<Rightarrow> string"

text \<open>The sync status strings \<open>'syncing'\<close>, \<open>'synced'\<close> and \<open>'error'\<close>.\<close>

datatype sync_status = Syncing | Synced | SyncFailed

text \<open>The two closures handed to \<open>setTimeout\<close>.\<close>

datatype callback = SyncCallback | RetryCallback

text \<open>
  One record holds the fields of the \<open>EnhancedStateManager\<close> singleton (\<open>state\<close> to
  \<open>currentSyncStatus\<close>), those of the \<open>SyncManager\<close> singleton (\<open>retryAttempts\<close>,
  \<open>isOnline\<close>, and \<open>handlerReplaced\<close>: whether its method \<open>handleSyncEvent\<close> has been
  replaced by the application's own handler), the flag of the \<open>AuthManager\<close>, and the
  environment: local storage, the pending timers (handle, due time, closure), the last
  timer handle given out, and the content of every \<open>saveUserProgress\<close> request issued
  so far.

  Every operation takes the reading of \<open>Date.now()\<close> as its argument \<open>now\<close>: the clock
  does not advance within one turn of the event loop. An asynchronous operation takes
  the outcome of each request it awaits as an argument, and is modelled with no other
  turn running between the request and its answer; \<open>syncToCloud\<close> is also given in
  its two halves, for the callers that do not await it.
\<close>

record manager =
  state :: app_state
  syncInProgress :: bool
  lastSyncTime :: "int option"
  pendingChanges :: bool
  syncTimeout :: "nat option"
  currentSyncStatus :: "sync_status option"
  retryAttempts :: nat
  isOnline :: bool
  handlerReplaced :: bool
  authenticated :: bool
  storage :: "string \<Rightarrow> string option"
  timers :: "(nat \<times> int \<times> callback) list"
  lastHandle :: nat
  upserts :: "(string \<times> jsval) list list"

definition maxRetries :: nat where
  "maxRetries = 3"

definition retryDelay :: int where
  "retryDelay = 5000"

text \<open>\<open>setTimeout\<close> hands out a fresh positive handle; \<open>clearTimeout\<close> drops the timer.\<close>

definition setTimeout :: "callback \<Rightarrow> int \<Rightarrow> int \<Rightarrow> manager \<Rightarrow> nat \<times> manager" where
  "setTimeout cb delay now w =
     (let h = Suc (lastHandle w)
      in (h, w\<lparr> timers := timers w @ [(h, now + delay, cb)], lastHandle := h \<rparr>))"

definition clearTimeout :: "nat \<Rightarrow> manager \<Rightarrow> manager" where
  "clearTimeout h w = w\<lparr> timers := filter (\<lambda>(h', due, cb). h' \<noteq> h) (timers w) \<rparr>"

text \<open>\<open>if (this.syncTimeout) clearTimeout(this.syncTimeout)\<close>: a handle is truthy unless 0.\<close>

definition clearSyncTimeout :: "manager \<Rightarrow> manager" where
  "clearSyncTimeout w =
     (case syncTimeout w of
        None \<Rightarrow> w
      | Some h \<Rightarrow> if h \<noteq> 0 then clearTimeout h w else w)"

section \<open>SyncManager: the retry policy\<close>

definition queueRetrySync :: "int \<Rightarrow> manager \<Rightarrow> manager" where
  "queueRetrySync now w =
     (if retryAttempts w < maxRetries then
        (let w1 = w\<lparr> retryAttempts := retryAttempts w + 1 \<rparr>
         in snd (setTimeout RetryCallback (retryDelay * int (retryAttempts w1)) now w1))
      else w)"

definition handleSyncEvent :: "sync_status \<Rightarrow> int \<Rightarrow> manager \<Rightarrow> manager" where
  "handleSyncEvent status now w =
     (if status = SyncFailed \<and> isOnline w then queueRetrySync now w else w)"

section \<open>The application's handler for sync events\<close>

text \<open>
  The application's handler for sync events, \<open>handleSyncStatusChange\<close>: it updates the
  status indicator and shows notifications, and touches nothing of the managers.
\<close>

definition handleSyncStatusChange :: "sync_status \<Rightarrow> manager \<Rightarrow> manager" where
  "handleSyncStatusChange status w = w"

text \<open>
  While it sets up its event listeners the application assigns its own handler to
  \<open>syncManager.handleSyncEvent\<close>. It does so when \<open>isAuthEnabled\<close> is set, which is the
  case whenever \<open>SyncManager.initialize\<close> has run and registered its listener.
\<close>

definition setupEventListeners :: "manager \<Rightarrow> manager" where
  "setupEventListeners w = w\<lparr> handlerReplaced := True \<rparr>"

section \<open>EnhancedStateManager\<close>

text \<open>
  The listener list holds the closure that \<open>SyncManager.initialize\<close> registered. It calls
  \<open>this.handleSyncEvent\<close>, looked up at each event: the method of \<open>SyncManager\<close> until the
  application has replaced it, the application's handler from then on.
\<close>

definition notifySyncListeners :: "sync_status \<Rightarrow> int \<Rightarrow> manager \<Rightarrow> manager" where
  "notifySyncListeners status now w =
     (if handlerReplaced w then handleSyncStatusChange status w
      else handleSyncEvent status now w)"

definition setSyncStatus :: "sync_status \<Rightarrow> int \<Rightarrow> manager \<Rightarrow> manager" where
  "setSyncStatus status now w =
     notifySyncListeners status now (w\<lparr> currentSyncStatus := Some status \<rparr>)"

definition scheduleSyncToCloud :: "int \<Rightarrow> int \<Rightarrow> manager \<Rightarrow> manager" where
  "scheduleSyncToCloud delay now w =
     (let (h, w1) = setTimeout SyncCallback delay now (clearSyncTimeout w)
      in w1\<lparr> syncTimeout := Some h \<rparr>)"

text \<open>\<open>localStorage.setItem(k, v)\<close> stores the text of \<open>v\<close>: a string is stored as it is.\<close>

definition item_text :: "codec \<Rightarrow> jsval \<Rightarrow> string" where
  "item_text cd v = (case v of JStr s \<Rightarrow> s | _ \<Rightarrow> to_text cd v)"

definition persistLocal :: "int \<Rightarrow> codec \<Rightarrow> manager \<Rightarrow> manager" where
  "persistLocal now cd w =
     (let m = (meta (state w))\<lparr> lastModified := now, hasLocalChanges := True \<rparr>;
          s = (state w)\<lparr> meta := m \<rparr>;
          st = (storage w)
                 (''province'' \<mapsto> item_text cd (province s),
                  ''industry'' \<mapsto> item_text cd (industry s),
                  ''hiring'' \<mapsto> item_text cd (hiring s),
                  ''revenue'' \<mapsto> item_text cd (revenue s),
                  ''completed'' \<mapsto> stringify cd (completed s),
                  ''_state_meta'' \<mapsto> stringify_meta cd m)
      in scheduleSyncToCloud 2000 now (w\<lparr> state := s, storage := st, pendingChanges := True \<rparr>))"

text \<open>The outcome of \<open>saveUserProgress\<close>: a failure, or the saved row's time and version.\<close>

datatype save_outcome = SaveFailed | Saved int int

definition progressData :: "app_state \<Rightarrow> (string \<times> jsval) list" where
  "progressData s =
     [(''province'', province s), (''industry'', industry s), (''hiring'', hiring s),
      (''revenue'', revenue s), (''completed'', completed s)]"

text \<open>
  \<open>syncToCloud\<close> runs up to its \<open>await\<close> in the caller's turn (\<open>syncToCloud_begin\<close>: the
  guard, the status, the request) and resumes when the request settles
  (\<open>syncToCloud_resume\<close>). \<open>None\<close> is the early \<open>return false\<close> of the guard.
\<close>

definition syncToCloud_begin :: "int \<Rightarrow> manager \<Rightarrow> manager option" where
  "syncToCloud_begin now w =
     (if \<not> authenticated w \<or> syncInProgress w then None
      else
        (let w1 = setSyncStatus Syncing now (w\<lparr> syncInProgress := True \<rparr>)
         in Some (w1\<lparr> upserts := upserts w1 @ [progressData (state w1)] \<rparr>)))"

definition syncToCloud_resume :: "int \<Rightarrow> codec \<Rightarrow> save_outcome \<Rightarrow> manager \<Rightarrow> bool \<times> manager" where
  "syncToCloud_resume now cd out w =
     (case out of
        Saved upd ver \<Rightarrow>
          (let w1 = w\<lparr> state := (state w)\<lparr> meta :=
                      \<lparr> lastModified = upd, version = ver, syncedAt = Some now,
                        hasLocalChanges = False \<rparr> \<rparr> \<rparr>;
               w2 = persistLocal now cd w1;
               w3 = w2\<lparr> state := (state w2)\<lparr> meta := (meta (state w2))\<lparr> hasLocalChanges := False \<rparr> \<rparr>,
                       lastSyncTime := Some now, pendingChanges := False \<rparr>;
               w4 = setSyncStatus Synced now w3;
               w5 = notifySyncListeners Synced now w4
           in (True, w5\<lparr> syncInProgress := False \<rparr>))
      | SaveFailed \<Rightarrow>
          (let w1 = setSyncStatus SyncFailed now w;
               w2 = notifySyncListeners SyncFailed now w1
           in (False, w2\<lparr> syncInProgress := False \<rparr>)))"

text \<open>The whole call, when nothing else runs between the request and its answer.\<close>

definition syncToCloud :: "int \<Rightarrow> codec \<Rightarrow> save_outcome \<Rightarrow> manager \<Rightarrow> bool \<times> manager" where
  "syncToCloud now cd out w =
     (case syncToCloud_begin now w of
        None \<Rightarrow> (False, w)
      | Some w1 \<Rightarrow> syncToCloud_resume now cd out w1)"

definition forceSyncToCloud :: "int \<Rightarrow> codec \<Rightarrow> save_outcome \<Rightarrow> manager \<Rightarrow> bool \<times> manager" where
  "forceSyncToCloud now cd out w = syncToCloud now cd out (clearSyncTimeout w)"

subsection \<open>Loading from local storage\<close>

text \<open>\<open>localStorage.getItem(k) || d\<close>: a missing item and the empty text give \<open>d\<close>.\<close>

definition getItem_or :: "(string \<Rightarrow> string option) \<Rightarrow> string \<Rightarrow> string \<Rightarrow> string" where
  "getItem_or st k d = (case st k of None \<Rightarrow> d | Some s \<Rightarrow> if s \<noteq> [] then s else d)"

text \<open>The body of the \<open>try\<close> block of \<open>loadLocalState\<close>; \<open>Inl\<close> is the exception thrown.\<close>

definition load_attempt :: "int \<Rightarrow> codec \<Rightarrow> (string \<Rightarrow> string option) \<Rightarrow> js_error + app_state" where
  "load_attempt now cd st =
     (case parse cd (getItem_or st ''completed'' ''{}'') of
        None \<Rightarrow> Inl SyntaxError
      | Some c \<Rightarrow>
          (case parse_meta cd (getItem_or st ''_state_meta''
                                 (stringify_meta cd (meta (loadDefaultState now)))) of
             None \<Rightarrow> Inl SyntaxError
           | Some m \<Rightarrow>
               Inr \<lparr> province = JStr (getItem_or st ''province'' []),
                     industry = JStr (getItem_or st ''industry'' ''general''),
                     hiring = JStr (getItem_or st ''hiring'' ''no''),
                     revenue = JStr (getItem_or st ''revenue'' ''gte30''),
                     completed = c,
                     meta = m \<rparr>))"

definition loadLocalState :: "int \<Rightarrow> codec \<Rightarrow> (string \<Rightarrow> string option) \<Rightarrow> app_state" where
  "loadLocalState now cd st =
     (case load_attempt now cd st of
        Inl e \<Rightarrow> loadDefaultState now
      | Inr saved \<Rightarrow> saved)"

subsection \<open>Meaningful progress\<close>

definition hasProgressData :: "app_state \<Rightarrow> js_error + bool" where
  "hasProgressData s =
     (if truthy (province s) then Inr True
      else
        (case Object_keys (completed s) of
           Inl e \<Rightarrow> Inl e
         | Inr ks \<Rightarrow>
             Inr (length ks > 0 \<or> industry s \<noteq> JStr ''general'' \<or>
                  hiring s \<noteq> JStr ''no'' \<or> revenue s \<noteq> JStr ''gte30'')))"

subsection \<open>Sync down\<close>

text \<open>The outcome of \<open>getUserProgress\<close>: an error, no row (\<open>null\<close>), or the row.\<close>

datatype fetch_outcome = FetchFailed | NoRow | Row remote_row

text \<open>Truthiness of a timestamp that may be \<open>null\<close> or \<open>undefined\<close>.\<close>

definition time_set :: "int option \<Rightarrow> bool" where
  "time_set t = (case t of None \<Rightarrow> False | Some n \<Rightarrow> n \<noteq> 0)"

definition cloud_state :: "int \<Rightarrow> remote_row \<Rightarrow> app_state" where
  "cloud_state now r =
     \<lparr> province = r_province r,
       industry = r_industry r,
       hiring = r_hiring r,
       revenue = r_revenue r,
       completed = js_or (r_completed r) (JObj []),
       meta = \<lparr> lastModified = updated_at r, version = r_version r, syncedAt = Some now,
                hasLocalChanges = False \<rparr> \<rparr>"

definition clear_local_changes :: "manager \<Rightarrow> manager" where
  "clear_local_changes w =
     w\<lparr> state := (state w)\<lparr> meta := (meta (state w))\<lparr> hasLocalChanges := False \<rparr> \<rparr> \<rparr>"

definition syncFromCloud :: "int \<Rightarrow> codec \<Rightarrow> fetch_outcome \<Rightarrow> save_outcome \<Rightarrow> manager \<Rightarrow> bool \<times> manager" where
  "syncFromCloud now cd fetched out w =
     (if \<not> authenticated w then (False, w)
      else
        (let w0 = setSyncStatus Syncing now w
         in case fetched of
              FetchFailed \<Rightarrow> (False, setSyncStatus SyncFailed now w0)
            | Row r \<Rightarrow>
                (let w1 =
                   (if updated_at r > lastModified (meta (state w0)) \<or>
                       \<not> time_set (syncedAt (meta (state w0)))
                    then
                      notifySyncListeners Synced now
                        (clear_local_changes
                           (persistLocal now cd (w0\<lparr> state := cloud_state now r \<rparr>)))
                    else w0)
                 in (True, setSyncStatus Synced now (w1\<lparr> lastSyncTime := Some now \<rparr>)))
            | NoRow \<Rightarrow>
                (case hasProgressData (state w0) of
                   Inl e \<Rightarrow> (False, setSyncStatus SyncFailed now w0)
                 | Inr has \<Rightarrow>
                     (let w1 = (if has then snd (syncToCloud now cd out w0) else w0)
                      in (True, setSyncStatus Synced now (w1\<lparr> lastSyncTime := Some now \<rparr>))))))"

subsection \<open>Mutations\<close>

definition setProvince :: "jsval \<Rightarrow> int \<Rightarrow> codec \<Rightarrow> manager \<Rightarrow> manager" where
  "setProvince v now cd w = persistLocal now cd (w\<lparr> state := (state w)\<lparr> province := v \<rparr> \<rparr>)"

definition setIndustry :: "jsval \<Rightarrow> int \<Rightarrow> codec \<Rightarrow> manager \<Rightarrow> manager" where
  "setIndustry v now cd w = persistLocal now cd (w\<lparr> state := (state w)\<lparr> industry := v \<rparr> \<rparr>)"

definition setHiring :: "jsval \<Rightarrow> int \<Rightarrow> codec \<Rightarrow> manager \<Rightarrow> manager" where
  "setHiring v now cd w = persistLocal now cd (w\<lparr> state := (state w)\<lparr> hiring := v \<rparr> \<rparr>)"

definition setRevenue :: "jsval \<Rightarrow> int \<Rightarrow> codec \<Rightarrow> manager \<Rightarrow> manager" where
  "setRevenue v now cd w = persistLocal now cd (w\<lparr> state := (state w)\<lparr> revenue := v \<rparr> \<rparr>)"

text \<open>
  \<open>this.state.completed[key] = completed\<close> raises a TypeError unless the completion map
  is an object (the module is strict code); the error leaves \<open>setStepCompleted\<close>.
\<close>

definition setStepCompleted :: "string \<Rightarrow> bool \<Rightarrow> int \<Rightarrow> codec \<Rightarrow> manager \<Rightarrow> js_error + manager" where
  "setStepCompleted key c now cd w =
     (case completed (state w) of
        JObj kvs \<Rightarrow>
          (let w1 = persistLocal now cd
                      (w\<lparr> state := (state w)\<lparr> completed := JObj (AList.update key (JBool c) kvs) \<rparr> \<rparr>)
           in Inr (if c \<and> authenticated w1 then scheduleSyncToCloud 500 now w1 else w1))
      | _ \<Rightarrow> Inl TypeError)"

subsection \<open>Reset\<close>

text \<open>A call of \<open>syncToCloud\<close> that is not awaited: only its first part runs in this turn.\<close>

definition syncToCloud_unawaited :: "int \<Rightarrow> manager \<Rightarrow> manager" where
  "syncToCloud_unawaited now w =
     (case syncToCloud_begin now w of None \<Rightarrow> w | Some w1 \<Rightarrow> w1)"

text \<open>The six \<open>localStorage.removeItem\<close> calls of \<open>reset\<close>.\<close>

definition removeItems :: "(string \<Rightarrow> string option) \<Rightarrow> (string \<Rightarrow> string option)" where
  "removeItems st =
     st(''province'' := None, ''industry'' := None, ''hiring'' := None,
        ''revenue'' := None, ''completed'' := None, ''_state_meta'' := None)"

definition reset :: "int \<Rightarrow> manager \<Rightarrow> manager" where
  "reset now w =
     (let w1 = w\<lparr> state := loadDefaultState now, storage := removeItems (storage w) \<rparr>
      in if authenticated w1 then syncToCloud_unawaited now w1 else w1)"

subsection \<open>Import and export\<close>

definition validKeys :: "string list" where
  "validKeys = [''province'', ''industry'', ''hiring'', ''revenue'', ''completed'']"

text \<open>
  \<open>importData.hasOwnProperty(key)\<close>: a TypeError on \<open>undefined\<close> and \<open>null\<close>, and on an
  object whose own property \<open>hasOwnProperty\<close> hides the inherited method behind a
  value that cannot be called.
\<close>

fun hasOwnProperty :: "jsval \<Rightarrow> string \<Rightarrow> js_error + bool" where
  "hasOwnProperty JUndefined k = Inl TypeError"
| "hasOwnProperty JNull k = Inl TypeError"
| "hasOwnProperty (JObj kvs) k =
     (if ''hasOwnProperty'' \<in> set (map fst kvs) then Inl TypeError
      else Inr (k \<in> set (map fst kvs)))"
| "hasOwnProperty (JStr s) k =
     Inr (k = ''length'' \<or> k \<in> set (map fst (own_props (JStr s))))"
| "hasOwnProperty (JBool b) k = Inr False"
| "hasOwnProperty (JNum n) k = Inr False"

text \<open>The \<open>forEach\<close> over \<open>validKeys\<close> that fills \<open>filteredData\<close>.\<close>

fun filter_fields :: "jsval \<Rightarrow> string list \<Rightarrow> (string \<times> jsval) list \<Rightarrow> js_error + (string \<times> jsval) list" where
  "filter_fields d [] acc = Inr acc"
| "filter_fields d (k # ks) acc =
     (case hasOwnProperty d k of
        Inl e \<Rightarrow> Inl e
      | Inr True \<Rightarrow> filter_fields d ks (AList.update k (get_prop (own_props d) k) acc)
      | Inr False \<Rightarrow> filter_fields d ks acc)"

text \<open>
  \<open>{...this.state, ...fields}\<close> for an object \<open>fields\<close> whose keys are among the five
  content keys: every key present replaces the field of that name.
\<close>

definition with_fields :: "app_state \<Rightarrow> (string \<times> jsval) list \<Rightarrow> app_state" where
  "with_fields s fd =
     s\<lparr> province := (case map_of fd ''province'' of None \<Rightarrow> province s | Some v \<Rightarrow> v),
        industry := (case map_of fd ''industry'' of None \<Rightarrow> industry s | Some v \<Rightarrow> v),
        hiring := (case map_of fd ''hiring'' of None \<Rightarrow> hiring s | Some v \<Rightarrow> v),
        revenue := (case map_of fd ''revenue'' of None \<Rightarrow> revenue s | Some v \<Rightarrow> v),
        completed := (case map_of fd ''completed'' of None \<Rightarrow> completed s | Some v \<Rightarrow> v) \<rparr>"

definition importProgress :: "jsval \<Rightarrow> int \<Rightarrow> codec \<Rightarrow> manager \<Rightarrow> bool \<times> manager" where
  "importProgress importData now cd w =
     (case filter_fields importData validKeys [] of
        Inl e \<Rightarrow> (False, w)
      | Inr filteredData \<Rightarrow>
          (let s = (with_fields (state w) filteredData)
                     \<lparr> meta := (meta (state w))\<lparr> lastModified := now, hasLocalChanges := True \<rparr> \<rparr>;
               w1 = persistLocal now cd (w\<lparr> state := s \<rparr>);
               w2 = (if authenticated w1 then syncToCloud_unawaited now w1 else w1)
           in (True, w2)))"

text \<open>\<open>exportProgress\<close>; \<open>stamp\<close> is the text of \<open>new Date().toISOString()\<close>.\<close>

definition exportProgress :: "string \<Rightarrow> app_state \<Rightarrow> jsval" where
  "exportProgress stamp s =
     JObj (AList.update ''_version'' (JNum (version (meta s)))
            (AList.update ''_exportedAt'' (JStr stamp) (getState s)))"

section \<open>SyncManager: migration on sign-in\<close>

definition getMostRecent :: "jsval \<Rightarrow> jsval \<Rightarrow> int option \<Rightarrow> int option \<Rightarrow> jsval" where
  "getMostRecent localValue cloudValue localTime cloudTime =
     (if \<not> time_set localTime \<or> \<not> time_set cloudTime then js_or localValue cloudValue
      else
        (case (localTime, cloudTime) of
           (Some lt, Some ct) \<Rightarrow> if lt > ct then localValue else cloudValue
         | _ \<Rightarrow> cloudValue))"

text \<open>\<open>localState._meta?.lastModified\<close>, read from the object that \<open>getState\<close> returned.\<close>

definition meta_lastModified :: "(string \<times> jsval) list \<Rightarrow> int option" where
  "meta_lastModified localState =
     (case map_of localState ''_meta'' of
        None \<Rightarrow> None
      | Some m \<Rightarrow>
          (case get_prop (own_props m) ''lastModified'' of
             JNum n \<Rightarrow> Some n
           | _ \<Rightarrow> None))"

definition mergedData :: "(string \<times> jsval) list \<Rightarrow> remote_row \<Rightarrow> (string \<times> jsval) list" where
  "mergedData localState cloudProgress =
     [(''province'', getMostRecent (get_prop localState ''province'') (r_province cloudProgress)
                       (meta_lastModified localState) (Some (updated_at cloudProgress))),
      (''industry'', getMostRecent (get_prop localState ''industry'') (r_industry cloudProgress)
                       (meta_lastModified localState) (Some (updated_at cloudProgress))),
      (''hiring'', getMostRecent (get_prop localState ''hiring'') (r_hiring cloudProgress)
                     (meta_lastModified localState) (Some (updated_at cloudProgress))),
      (''revenue'', getMostRecent (get_prop localState ''revenue'') (r_revenue cloudProgress)
                      (meta_lastModified localState) (Some (updated_at cloudProgress))),
      (''completed'', spread2 (r_completed cloudProgress) (get_prop localState ''completed''))]"

definition uploadLocalData :: "int \<Rightarrow> codec \<Rightarrow> save_outcome \<Rightarrow> manager \<Rightarrow> manager" where
  "uploadLocalData now cd out w = snd (forceSyncToCloud now cd out w)"

text \<open>
  \<open>mergeLocalAndCloudData\<close>. Without a signed-in user \<open>getCurrentUser()\<close> is \<open>null\<close>
  and \<open>user.id\<close> raises a TypeError, which the \<open>catch\<close> swallows, as it does a failed
  fetch.
\<close>

definition mergeLocalAndCloudData :: "int \<Rightarrow> codec \<Rightarrow> fetch_outcome \<Rightarrow> save_outcome \<Rightarrow> manager \<Rightarrow> manager" where
  "mergeLocalAndCloudData now cd fetched out w =
     (if \<not> authenticated w then w
      else
        (case fetched of
           FetchFailed \<Rightarrow> w
         | NoRow \<Rightarrow> uploadLocalData now cd out w
         | Row cloudProgress \<Rightarrow>
             (let localState = getState (state w);
                  w1 = w\<lparr> state := with_fields (state w) (mergedData localState cloudProgress) \<rparr>
              in snd (forceSyncToCloud now cd out w1))))"

definition useCloudData :: "int \<Rightarrow> codec \<Rightarrow> fetch_outcome \<Rightarrow> save_outcome \<Rightarrow> manager \<Rightarrow> manager" where
  "useCloudData now cd fetched out w = snd (syncFromCloud now cd fetched out w)"

text \<open>The three buttons of the migration dialog.\<close>

datatype migration_choice = ChooseMerge | ChooseCloud | ChooseLocal

text \<open>
  \<open>handleUserSignIn\<close>; the first component of the result tells whether
  \<open>showMigrationDialog\<close> was called.
\<close>

definition handleUserSignIn :: "migration_choice \<Rightarrow> int \<Rightarrow> codec \<Rightarrow> fetch_outcome \<Rightarrow> save_outcome \<Rightarrow> manager \<Rightarrow> bool \<times> manager" where
  "handleUserSignIn choice now cd fetched out w =
     (case hasProgressData (state w) of
        Inl e \<Rightarrow> (False, w)
      | Inr True \<Rightarrow>
          (True,
           case choice of
             ChooseMerge \<Rightarrow> mergeLocalAndCloudData now cd fetched out w
           | ChooseCloud \<Rightarrow> useCloudData now cd fetched out w
           | ChooseLocal \<Rightarrow> uploadLocalData now cd out w)
      | Inr False \<Rightarrow> (False, snd (syncFromCloud now cd fetched out w)))"

section \<open>Timers coming due\<close>

text \<open>The closure of \<open>scheduleSyncToCloud\<close>.\<close>

definition sync_callback :: "int \<Rightarrow> codec \<Rightarrow> save_outcome \<Rightarrow> manager \<Rightarrow> manager" where
  "sync_callback now cd out w =
     (if authenticated w \<and> pendingChanges w then snd (syncToCloud now cd out w) else w)"

text \<open>The closure of \<open>queueRetrySync\<close>.\<close>

definition retry_callback :: "int \<Rightarrow> codec \<Rightarrow> save_outcome \<Rightarrow> manager \<Rightarrow> manager" where
  "retry_callback now cd out w =
     (let (success, w1) = forceSyncToCloud now cd out w
      in if success then w1\<lparr> retryAttempts := 0 \<rparr>
         else if retryAttempts w1 \<ge> maxRetries then w1\<lparr> retryAttempts := 0 \<rparr>
         else w1)"

text \<open>
  The timer with handle \<open>h\<close> fires at time \<open>now\<close> if it is pending and due: it leaves
  the timer list and its closure runs.
\<close>

definition fire_timer :: "nat \<Rightarrow> int \<Rightarrow> codec \<Rightarrow> save_outcome \<Rightarrow> manager \<Rightarrow> manager" where
  "fire_timer h now cd out w =
     (case find (\<lambda>(h', due, cb). h' = h \<and> due \<le> now) (timers w) of
        None \<Rightarrow> w
      | Some (h', due, cb) \<Rightarrow>
          (let w1 = clearTimeout h w
           in case cb of
                SyncCallback \<Rightarrow> sync_callback now cd out w1
              | RetryCallback \<Rightarrow> retry_callback now cd out w1))"

section \<open>Vocabulary of the properties\<close>

text \<open>The content fields of a progress record, as one value.\<close>

definition content :: "app_state \<Rightarrow> jsval \<times> jsval \<times> jsval \<times> jsval \<times> jsval" where
  "content s = (province s, industry s, hiring s, revenue s, completed s)"

text \<open>
  The two singletons as their constructors leave them, with the clock reading, the
  value of \<open>navigator.onLine\<close> and the authentication flag as arguments.
\<close>

definition new_manager :: "int \<Rightarrow> bool \<Rightarrow> bool \<Rightarrow> manager" where
  "new_manager now online auth =
     \<lparr> state = loadDefaultState now,
       syncInProgress = False,
       lastSyncTime = None,
       pendingChanges = False,
       syncTimeout = None,
       currentSyncStatus = None,
       retryAttempts = 0,
       isOnline = online,
       handlerReplaced = False,
       authenticated = auth,
       storage = Map.empty,
       timers = [],
       lastHandle = 0,
       upserts = [] \<rparr>"

text \<open>
  A codec for the concrete runs below. It agrees with the runtime on the texts those
  runs read: \<open>{}\<close> is the empty object, and a text that is not JSON is rejected. The
  empty object is written as \<open>{}\<close> and any other value as a placeholder; the metadata
  is written as one fixed text and read back as the metadata of a record that never
  synced. No property below depends on the texts written.
\<close>

definition sample_codec :: codec where
  "sample_codec =
     \<lparr> parse = (\<lambda>t. if t = ''{}'' then Some (JObj []) else None),
       stringify = (\<lambda>v. if v = JObj [] then ''{}'' else ''{...}''),
       parse_meta = (\<lambda>t. if t = ''meta'' then
                            Some \<lparr> lastModified = 0, version = 1, syncedAt = None,
                                   hasLocalChanges = False \<rparr>
                          else None),
       stringify_meta = (\<lambda>m. ''meta''),
       to_text = (\<lambda>v. case v of
                          JUndefined \<Rightarrow> ''undefined''
                        | JNull \<Rightarrow> ''null''
                        | JBool b \<Rightarrow> if b then ''true'' else ''false''
                        | JNum n \<Rightarrow> if n < 0 then CHR ''-'' # show_nat (nat (- n))
                                    else show_nat (nat n)
                        | JStr t \<Rightarrow> t
                        | JObj kvs \<Rightarrow> ''[object Object]'') \<rparr>"

text \<open>The timers that hold the debounced upload.\<close>

definition sync_timers :: "manager \<Rightarrow> (nat \<times> int \<times> callback) list" where
  "sync_timers w = filter (\<lambda>(h, due, cb). cb = SyncCallback) (timers w)"

text \<open>The timers that hold a queued retry.\<close>

definition retry_timers :: "manager \<Rightarrow> (nat \<times> int \<times> callback) list" where
  "retry_timers w = filter (\<lambda>(h, due, cb). cb = RetryCallback) (timers w)"

text \<open>
  Well-formed timer bookkeeping: the pending timers carry distinct handles that
  \<open>setTimeout\<close> has given out, and a pending upload timer is the one that
  \<open>syncTimeout\<close> remembers.
\<close>

definition timers_ok :: "manager \<Rightarrow> bool" where
  "timers_ok w =
     (distinct (map fst (timers w)) \<and>
      list_all (\<lambda>(h, due, cb). 0 < h \<and> h \<le> lastHandle w \<and>
                  (cb = SyncCallback \<longrightarrow> syncTimeout w = Some h)) (timers w))"

text \<open>The due times of a list of timers.\<close>

definition due_times :: "(nat \<times> int \<times> callback) list \<Rightarrow> int list" where
  "due_times ts = map (\<lambda>(h, due, cb). due) ts"

text \<open>The five mutations that the presentation layer can ask for.\<close>

datatype mutation =
    SetProvince jsval
  | SetIndustry jsval
  | SetHiring jsval
  | SetRevenue jsval
  | SetStepCompleted string bool

fun mutate :: "mutation \<Rightarrow> int \<Rightarrow> codec \<Rightarrow> manager \<Rightarrow> js_error + manager" where
  "mutate (SetProvince v) now cd w = Inr (setProvince v now cd w)"
| "mutate (SetIndustry v) now cd w = Inr (setIndustry v now cd w)"
| "mutate (SetHiring v) now cd w = Inr (setHiring v now cd w)"
| "mutate (SetRevenue v) now cd w = Inr (setRevenue v now cd w)"
| "mutate (SetStepCompleted key c) now cd w = setStepCompleted key c now cd w"


text \<open>
  Meaningful data in the words of the specification: some content field differs from
  its default, or some completion flag is \<open>true\<close>.
\<close>

definition spec_meaningful :: "app_state \<Rightarrow> bool" where
  "spec_meaningful s =
     (province s \<noteq> JStr [] \<or> industry s \<noteq> JStr ''general'' \<or> hiring s \<noteq> JStr ''no'' \<or>
      revenue s \<noteq> JStr ''gte30'' \<or>
      list_ex (\<lambda>(k, v). v = JBool True) (own_props (completed s)))"



text \<open>
  The event loop: the pending timer that is due first (the earlier one among equals)
  runs at its due time. \<open>run_timers n\<close> lets \<open>n\<close> timers run, every upload request
  being answered with \<open>out\<close>.
\<close>

definition next_timer :: "manager \<Rightarrow> (nat \<times> int \<times> callback) option" where
  "next_timer w =
     (case timers w of
        [] \<Rightarrow> None
      | t # ts \<Rightarrow>
          Some (fold (\<lambda>t' best. if fst (snd t') < fst (snd best) then t' else best) ts t))"

fun run_timers :: "nat \<Rightarrow> codec \<Rightarrow> save_outcome \<Rightarrow> manager \<Rightarrow> manager" where
  "run_timers 0 cd out w = w"
| "run_timers (Suc n) cd out w =
     (case next_timer w of
        None \<Rightarrow> w
      | Some (h, due, cb) \<Rightarrow> run_timers n cd out (fire_timer h due cd out w))"

text \<open>
  The retry bookkeeping while \<open>SyncManager\<close> still runs its own handler: no more retry
  timers are pending than the counter says, and the counter is at most \<open>maxRetries\<close>.
\<close>

definition queue_capped :: "manager \<Rightarrow> bool" where
  "queue_capped w =
     (length (retry_timers w) \<le> retryAttempts w \<and> retryAttempts w \<le> maxRetries)"

text \<open>At most \<open>maxRetries\<close> retry timers are pending.\<close>

definition retries_capped :: "manager \<Rightarrow> bool" where
  "retries_capped w = (length (retry_timers w) \<le> maxRetries)"

text \<open>
  A sync-down at time 300 for a signed-in user whose record, with province \<open>'ON'\<close>, was
  last modified at 100 and never synced; the remote row has province \<open>'BC'\<close>, version 7,
  and was updated at 200.
\<close>

definition synced_down :: manager where
  "synced_down =
     snd (syncFromCloud 300 sample_codec
       (Row \<lparr> r_province = JStr ''BC'', r_industry = JStr ''general'', r_hiring = JStr ''no'',
              r_revenue = JStr ''gte30'', r_completed = JNull, r_version = 7,
              updated_at = 200 \<rparr>)
       SaveFailed
       ((new_manager 100 True True)
          \<lparr> state := (loadDefaultState 100)\<lparr> province := JStr ''ON'' \<rparr> \<rparr>))"

text \<open>
  A signed-in user changes the province to \<open>'BC'\<close> at 300, while the upload of \<open>'ON'\<close>
  that started at 200 is in flight; that upload succeeds at 400.
\<close>

definition changed_in_flight :: manager where
  "changed_in_flight =
     snd (syncToCloud_resume 400 sample_codec (Saved 400 2)
       (setProvince (JStr ''BC'') 300 sample_codec
          (syncToCloud_unawaited 200
             ((new_manager 100 True True)
                \<lparr> state := (loadDefaultState 100)\<lparr> province := JStr ''ON'' \<rparr> \<rparr>))))"

text \<open>
  A signed-in user whose upload of the province \<open>'ON'\<close> started at 200 and is still in
  flight calls \<open>reset()\<close> at 300; \<open>reset_settled\<close> is the manager after the upload in
  flight has succeeded at 400.
\<close>

definition reset_in_flight :: manager where
  "reset_in_flight =
     reset 300 (syncToCloud_unawaited 200
       ((new_manager 100 True True)
          \<lparr> state := (loadDefaultState 100)\<lparr> province := JStr ''ON'' \<rparr>,
            storage := [''province'' \<mapsto> ''ON''] \<rparr>))"

definition reset_settled :: manager where
  "reset_settled = snd (syncToCloud_resume 400 sample_codec (Saved 400 2) reset_in_flight)"


text \<open>
  The situation that \<open>SyncManager\<close>'s own handler would be in after a failed upload of a
  signed-in, online user who makes no further change: nothing in flight, no upload
  timer, retry timers pending, and the retry counter at 0 or 2.
\<close>

definition retrying :: "manager \<Rightarrow> bool" where
  "retrying w =
     (\<not> handlerReplaced w \<and>
      authenticated w \<and> isOnline w \<and> \<not> syncInProgress w \<and> syncTimeout w = None \<and>
      timers w \<noteq> [] \<and> distinct (map fst (timers w)) \<and>
      list_all (\<lambda>(h, due, cb). h \<le> lastHandle w \<and> cb = RetryCallback) (timers w) \<and>
      (retryAttempts w = 0 \<or> retryAttempts w = 2))"

section \<open>What each operation leaves alone\<close>

lemma handleSyncStatusChange_id [simp]: "handleSyncStatusChange status w = w"
  by (simp add: handleSyncStatusChange_def)

lemma setupEventListeners_fields [simp]:
  "state (setupEventListeners w) = state w"
  "syncInProgress (setupEventListeners w) = syncInProgress w"
  "lastSyncTime (setupEventListeners w) = lastSyncTime w"
  "pendingChanges (setupEventListeners w) = pendingChanges w"
  "syncTimeout (setupEventListeners w) = syncTimeout w"
  "currentSyncStatus (setupEventListeners w) = currentSyncStatus w"
  "retryAttempts (setupEventListeners w) = retryAttempts w"
  "isOnline (setupEventListeners w) = isOnline w"
  "handlerReplaced (setupEventListeners w)"
  "authenticated (setupEventListeners w) = authenticated w"
  "storage (setupEventListeners w) = storage w"
  "timers (setupEventListeners w) = timers w"
  "lastHandle (setupEventListeners w) = lastHandle w"
  "upserts (setupEventListeners w) = upserts w"
  by (simp_all add: setupEventListeners_def)

lemma setTimeout_fields [simp]:
  "state (snd (setTimeout cb d now w)) = state w"
  "syncInProgress (snd (setTimeout cb d now w)) = syncInProgress w"
  "lastSyncTime (snd (setTimeout cb d now w)) = lastSyncTime w"
  "pendingChanges (snd (setTimeout cb d now w)) = pendingChanges w"
  "syncTimeout (snd (setTimeout cb d now w)) = syncTimeout w"
  "currentSyncStatus (snd (setTimeout cb d now w)) = currentSyncStatus w"
  "retryAttempts (snd (setTimeout cb d now w)) = retryAttempts w"
  "isOnline (snd (setTimeout cb d now w)) = isOnline w"
  "handlerReplaced (snd (setTimeout cb d now w)) = handlerReplaced w"
  "authenticated (snd (setTimeout cb d now w)) = authenticated w"
  "storage (snd (setTimeout cb d now w)) = storage w"
  "upserts (snd (setTimeout cb d now w)) = upserts w"
  "timers (snd (setTimeout cb d now w)) = timers w @ [(Suc (lastHandle w), now + d, cb)]"
  "lastHandle (snd (setTimeout cb d now w)) = Suc (lastHandle w)"
  "fst (setTimeout cb d now w) = Suc (lastHandle w)"
  by (simp_all add: setTimeout_def Let_def)

lemma clearTimeout_fields [simp]:
  "state (clearTimeout h w) = state w"
  "syncInProgress (clearTimeout h w) = syncInProgress w"
  "lastSyncTime (clearTimeout h w) = lastSyncTime w"
  "pendingChanges (clearTimeout h w) = pendingChanges w"
  "syncTimeout (clearTimeout h w) = syncTimeout w"
  "currentSyncStatus (clearTimeout h w) = currentSyncStatus w"
  "retryAttempts (clearTimeout h w) = retryAttempts w"
  "isOnline (clearTimeout h w) = isOnline w"
  "handlerReplaced (clearTimeout h w) = handlerReplaced w"
  "authenticated (clearTimeout h w) = authenticated w"
  "storage (clearTimeout h w) = storage w"
  "upserts (clearTimeout h w) = upserts w"
  "lastHandle (clearTimeout h w) = lastHandle w"
  "timers (clearTimeout h w) = filter (\<lambda>(h', due, cb). h' \<noteq> h) (timers w)"
  by (simp_all add: clearTimeout_def)

lemma clearSyncTimeout_fields [simp]:
  "state (clearSyncTimeout w) = state w"
  "syncInProgress (clearSyncTimeout w) = syncInProgress w"
  "lastSyncTime (clearSyncTimeout w) = lastSyncTime w"
  "pendingChanges (clearSyncTimeout w) = pendingChanges w"
  "syncTimeout (clearSyncTimeout w) = syncTimeout w"
  "currentSyncStatus (clearSyncTimeout w) = currentSyncStatus w"
  "retryAttempts (clearSyncTimeout w) = retryAttempts w"
  "isOnline (clearSyncTimeout w) = isOnline w"
  "handlerReplaced (clearSyncTimeout w) = handlerReplaced w"
  "authenticated (clearSyncTimeout w) = authenticated w"
  "storage (clearSyncTimeout w) = storage w"
  "upserts (clearSyncTimeout w) = upserts w"
  "lastHandle (clearSyncTimeout w) = lastHandle w"
  by (simp_all add: clearSyncTimeout_def split: option.splits)

lemma queueRetrySync_fields [simp]:
  "state (queueRetrySync now w) = state w"
  "syncInProgress (queueRetrySync now w) = syncInProgress w"
  "lastSyncTime (queueRetrySync now w) = lastSyncTime w"
  "pendingChanges (queueRetrySync now w) = pendingChanges w"
  "syncTimeout (queueRetrySync now w) = syncTimeout w"
  "currentSyncStatus (queueRetrySync now w) = currentSyncStatus w"
  "isOnline (queueRetrySync now w) = isOnline w"
  "handlerReplaced (queueRetrySync now w) = handlerReplaced w"
  "authenticated (queueRetrySync now w) = authenticated w"
  "storage (queueRetrySync now w) = storage w"
  "upserts (queueRetrySync now w) = upserts w"
  by (simp_all add: queueRetrySync_def Let_def)

lemma handleSyncEvent_fields [simp]:
  "state (handleSyncEvent st now w) = state w"
  "syncInProgress (handleSyncEvent st now w) = syncInProgress w"
  "lastSyncTime (handleSyncEvent st now w) = lastSyncTime w"
  "pendingChanges (handleSyncEvent st now w) = pendingChanges w"
  "syncTimeout (handleSyncEvent st now w) = syncTimeout w"
  "currentSyncStatus (handleSyncEvent st now w) = currentSyncStatus w"
  "isOnline (handleSyncEvent st now w) = isOnline w"
  "handlerReplaced (handleSyncEvent st now w) = handlerReplaced w"
  "authenticated (handleSyncEvent st now w) = authenticated w"
  "storage (handleSyncEvent st now w) = storage w"
  "upserts (handleSyncEvent st now w) = upserts w"
  by (simp_all add: handleSyncEvent_def)

lemma notifySyncListeners_fields [simp]:
  "state (notifySyncListeners st now w) = state w"
  "syncInProgress (notifySyncListeners st now w) = syncInProgress w"
  "lastSyncTime (notifySyncListeners st now w) = lastSyncTime w"
  "pendingChanges (notifySyncListeners st now w) = pendingChanges w"
  "syncTimeout (notifySyncListeners st now w) = syncTimeout w"
  "currentSyncStatus (notifySyncListeners st now w) = currentSyncStatus w"
  "isOnline (notifySyncListeners st now w) = isOnline w"
  "handlerReplaced (notifySyncListeners st now w) = handlerReplaced w"
  "authenticated (notifySyncListeners st now w) = authenticated w"
  "storage (notifySyncListeners st now w) = storage w"
  "upserts (notifySyncListeners st now w) = upserts w"
  by (simp_all add: notifySyncListeners_def)

lemma setSyncStatus_fields [simp]:
  "state (setSyncStatus st now w) = state w"
  "syncInProgress (setSyncStatus st now w) = syncInProgress w"
  "lastSyncTime (setSyncStatus st now w) = lastSyncTime w"
  "pendingChanges (setSyncStatus st now w) = pendingChanges w"
  "syncTimeout (setSyncStatus st now w) = syncTimeout w"
  "currentSyncStatus (setSyncStatus st now w) = Some st"
  "isOnline (setSyncStatus st now w) = isOnline w"
  "handlerReplaced (setSyncStatus st now w) = handlerReplaced w"
  "authenticated (setSyncStatus st now w) = authenticated w"
  "storage (setSyncStatus st now w) = storage w"
  "upserts (setSyncStatus st now w) = upserts w"
  by (simp_all add: setSyncStatus_def)

text \<open>Only an \<open>'error'\<close> event reaches the retry queue.\<close>

lemma handleSyncEvent_quiet [simp]:
  "st \<noteq> SyncFailed \<Longrightarrow> handleSyncEvent st now w = w"
  by (simp add: handleSyncEvent_def)

lemma notifySyncListeners_quiet [simp]:
  "st \<noteq> SyncFailed \<Longrightarrow> notifySyncListeners st now w = w"
  by (simp add: notifySyncListeners_def)

lemma setSyncStatus_quiet [simp]:
  "st \<noteq> SyncFailed \<Longrightarrow> setSyncStatus st now w = w\<lparr> currentSyncStatus := Some st \<rparr>"
  by (simp add: setSyncStatus_def)

lemma scheduleSyncToCloud_fields [simp]:
  "state (scheduleSyncToCloud d now w) = state w"
  "syncInProgress (scheduleSyncToCloud d now w) = syncInProgress w"
  "lastSyncTime (scheduleSyncToCloud d now w) = lastSyncTime w"
  "pendingChanges (scheduleSyncToCloud d now w) = pendingChanges w"
  "currentSyncStatus (scheduleSyncToCloud d now w) = currentSyncStatus w"
  "retryAttempts (scheduleSyncToCloud d now w) = retryAttempts w"
  "isOnline (scheduleSyncToCloud d now w) = isOnline w"
  "handlerReplaced (scheduleSyncToCloud d now w) = handlerReplaced w"
  "authenticated (scheduleSyncToCloud d now w) = authenticated w"
  "storage (scheduleSyncToCloud d now w) = storage w"
  "upserts (scheduleSyncToCloud d now w) = upserts w"
  "syncTimeout (scheduleSyncToCloud d now w) = Some (Suc (lastHandle w))"
  "lastHandle (scheduleSyncToCloud d now w) = Suc (lastHandle w)"
  "timers (scheduleSyncToCloud d now w) =
     timers (clearSyncTimeout w) @ [(Suc (lastHandle w), now + d, SyncCallback)]"
  by (simp_all add: scheduleSyncToCloud_def split_beta)

lemma persistLocal_fields [simp]:
  "content (state (persistLocal now cd w)) = content (state w)"
  "meta (state (persistLocal now cd w)) =
     (meta (state w))\<lparr> lastModified := now, hasLocalChanges := True \<rparr>"
  "syncInProgress (persistLocal now cd w) = syncInProgress w"
  "lastSyncTime (persistLocal now cd w) = lastSyncTime w"
  "pendingChanges (persistLocal now cd w) = True"
  "currentSyncStatus (persistLocal now cd w) = currentSyncStatus w"
  "retryAttempts (persistLocal now cd w) = retryAttempts w"
  "isOnline (persistLocal now cd w) = isOnline w"
  "handlerReplaced (persistLocal now cd w) = handlerReplaced w"
  "authenticated (persistLocal now cd w) = authenticated w"
  "upserts (persistLocal now cd w) = upserts w"
  "syncTimeout (persistLocal now cd w) = Some (Suc (lastHandle w))"
  "lastHandle (persistLocal now cd w) = Suc (lastHandle w)"
  "timers (persistLocal now cd w) =
     timers (clearSyncTimeout w) @ [(Suc (lastHandle w), now + 2000, SyncCallback)]"
  by (simp_all add: persistLocal_def Let_def content_def clearSyncTimeout_def
      split: option.splits)

lemma persistLocal_state:
  "state (persistLocal now cd w) =
     (state w)\<lparr> meta := (meta (state w))\<lparr> lastModified := now, hasLocalChanges := True \<rparr> \<rparr>"
  by (simp add: persistLocal_def Let_def)

lemma content_meta_update [simp]: "content (s\<lparr> meta := m \<rparr>) = content s"
  by (simp add: content_def)

lemma syncToCloud_begin_fields:
  assumes "syncToCloud_begin now w = Some w1"
  shows "state w1 = state w"
    and "upserts w1 = upserts w @ [progressData (state w)]"
    and "storage w1 = storage w"
    and "syncInProgress w1"
    and "authenticated w1 = authenticated w"
    and "isOnline w1 = isOnline w"
    and "handlerReplaced w1 = handlerReplaced w"
    and "pendingChanges w1 = pendingChanges w"
    and "retryAttempts w1 = retryAttempts w"
    and "timers w1 = timers w"
    and "lastHandle w1 = lastHandle w"
    and "syncTimeout w1 = syncTimeout w"
    and "authenticated w"
    and "\<not> syncInProgress w"
  using assms by (auto simp: syncToCloud_begin_def Let_def split: if_splits)

lemma syncToCloud_resume_fields [simp]:
  "content (state (snd (syncToCloud_resume now cd out w))) = content (state w)"
  "upserts (snd (syncToCloud_resume now cd out w)) = upserts w"
  "authenticated (snd (syncToCloud_resume now cd out w)) = authenticated w"
  "isOnline (snd (syncToCloud_resume now cd out w)) = isOnline w"
  "handlerReplaced (snd (syncToCloud_resume now cd out w)) = handlerReplaced w"
  "syncInProgress (snd (syncToCloud_resume now cd out w)) = False"
  "fst (syncToCloud_resume now cd out w) = (out \<noteq> SaveFailed)"
  by (simp_all add: syncToCloud_resume_def Let_def split: save_outcome.splits)

lemma syncToCloud_cases:
  "syncToCloud now cd out w =
     (if \<not> authenticated w \<or> syncInProgress w then (False, w)
      else syncToCloud_resume now cd out
             ((setSyncStatus Syncing now (w\<lparr> syncInProgress := True \<rparr>))
                \<lparr> upserts := upserts w @ [progressData (state w)] \<rparr>))"
  by (simp add: syncToCloud_def syncToCloud_begin_def Let_def)

lemma syncToCloud_fields [simp]:
  "content (state (snd (syncToCloud now cd out w))) = content (state w)"
  "authenticated (snd (syncToCloud now cd out w)) = authenticated w"
  "isOnline (snd (syncToCloud now cd out w)) = isOnline w"
  "handlerReplaced (snd (syncToCloud now cd out w)) = handlerReplaced w"
  "upserts (snd (syncToCloud now cd out w)) =
     (if \<not> authenticated w \<or> syncInProgress w then upserts w
      else upserts w @ [progressData (state w)])"
  "syncInProgress (snd (syncToCloud now cd out w)) = syncInProgress w"
  "fst (syncToCloud now cd out w) =
     (authenticated w \<and> \<not> syncInProgress w \<and> out \<noteq> SaveFailed)"
  by (auto simp: syncToCloud_cases)

lemma forceSyncToCloud_fields [simp]:
  "content (state (snd (forceSyncToCloud now cd out w))) = content (state w)"
  "authenticated (snd (forceSyncToCloud now cd out w)) = authenticated w"
  "isOnline (snd (forceSyncToCloud now cd out w)) = isOnline w"
  "handlerReplaced (snd (forceSyncToCloud now cd out w)) = handlerReplaced w"
  "upserts (snd (forceSyncToCloud now cd out w)) =
     (if \<not> authenticated w \<or> syncInProgress w then upserts w
      else upserts w @ [progressData (state w)])"
  "syncInProgress (snd (forceSyncToCloud now cd out w)) = syncInProgress w"
  "fst (forceSyncToCloud now cd out w) =
     (authenticated w \<and> \<not> syncInProgress w \<and> out \<noteq> SaveFailed)"
  by (simp_all add: forceSyncToCloud_def)

section \<open>Merging on sign-in\<close>

lemma map_of_assign_props:
  "distinct (map fst src) \<Longrightarrow> map_of (assign_props t src) = map_of t ++ map_of src"
  unfolding assign_props_def
proof (induction src arbitrary: t)
  case Nil
  then show ?case by simp
next
  case (Cons p src)
  obtain k v where p: "p = (k, v)" by (cases p)
  from Cons.prems have d: "distinct (map fst src)" and k: "k \<notin> fst ` set src"
    by (auto simp: p)
  have "map_of (fold (\<lambda>(k, v). AList.update k v) src (AList.update k v t)) =
        map_of (AList.update k v t) ++ map_of src"
    using d by (rule Cons.IH)
  moreover have "map_of src k = None"
    using k by (simp add: map_of_eq_None_iff)
  ultimately show ?case
    by (auto simp: p AList.update_conv' fun_eq_iff map_add_def split: option.splits)
qed

lemma keys_assign_props: "fst ` set (assign_props t src) = fst ` set t \<union> fst ` set src"
  unfolding assign_props_def
proof (induction src arbitrary: t)
  case Nil
  then show ?case by simp
next
  case (Cons p src)
  obtain k v where p: "p = (k, v)" by (cases p)
  show ?case using Cons.IH [of "AList.update k v t"]
    by (auto simp: p AList.dom_update)
qed

text \<open>The object returned by \<open>getState\<close> has no \<open>_meta\<close> property.\<close>

lemma meta_lastModified_getState: "meta_lastModified (getState s) = None"
  by (simp add: meta_lastModified_def getState_def)

lemma get_prop_getState [simp]:
  "get_prop (getState s) ''province'' = province s"
  "get_prop (getState s) ''industry'' = industry s"
  "get_prop (getState s) ''hiring'' = hiring s"
  "get_prop (getState s) ''revenue'' = revenue s"
  "get_prop (getState s) ''completed'' = completed s"
  by (simp_all add: get_prop_def getState_def)

lemma with_fields_mergedData:
  "content (with_fields s (mergedData (getState s) r)) =
     (js_or (province s) (r_province r), js_or (industry s) (r_industry r),
      js_or (hiring s) (r_hiring r), js_or (revenue s) (r_revenue r),
      spread2 (r_completed r) (completed s))"
  by (simp add: with_fields_def mergedData_def meta_lastModified_getState getMostRecent_def
      time_set_def content_def)

lemma content_merge:
  "authenticated w \<Longrightarrow>
   content (state (mergeLocalAndCloudData now cd (Row r) out w)) =
     (js_or (province (state w)) (r_province r), js_or (industry (state w)) (r_industry r),
      js_or (hiring (state w)) (r_hiring r), js_or (revenue (state w)) (r_revenue r),
      spread2 (r_completed r) (completed (state w)))"
  by (simp add: mergeLocalAndCloudData_def Let_def with_fields_mergedData)

lemma completed_merge:
  "authenticated w \<Longrightarrow>
   completed (state (mergeLocalAndCloudData now cd (Row r) out w)) =
     spread2 (r_completed r) (completed (state w))"
  using content_merge [of w now cd r out] by (simp add: content_def)

lemma province_merge:
  "authenticated w \<Longrightarrow>
   province (state (mergeLocalAndCloudData now cd (Row r) out w)) =
     js_or (province (state w)) (r_province r)"
  using content_merge [of w now cd r out] by (simp add: content_def)

text \<open>
  \<open>getMostRecent\<close> itself compares the two times when it is given both.
\<close>

lemma getMostRecent_both:
  "lt \<noteq> 0 \<Longrightarrow> ct \<noteq> 0 \<Longrightarrow>
     getMostRecent l c (Some lt) (Some ct) = (if lt > ct then l else c)"
  by (simp add: getMostRecent_def time_set_def)

lemma getMostRecent_missing:
  "getMostRecent l c None ct = js_or l c" "getMostRecent l c lt None = js_or l c"
  by (simp_all add: getMostRecent_def time_set_def)

text \<open>
  The spread \<open>{...cloudProgress.completed, ...localState.completed}\<close>: the merged
  completion map has the keys of both maps; a step key that the local map holds keeps
  the local value, whether \<open>true\<close> or \<open>false\<close>, and any other key takes the remote value.
  Both maps are objects, so their keys are distinct.
\<close>

lemma completed_merge_spread:
  assumes "authenticated w"
    and "distinct (map fst (own_props (completed (state w))))"
    and "distinct (map fst (own_props (r_completed r)))"
  shows "fst ` set (own_props (completed (state (mergeLocalAndCloudData now cd (Row r) out w)))) =
           fst ` set (own_props (r_completed r)) \<union> fst ` set (own_props (completed (state w))) \<and>
         map_of (own_props (completed (state (mergeLocalAndCloudData now cd (Row r) out w)))) k =
           (case map_of (own_props (completed (state w))) k of
              Some v \<Rightarrow> Some v
            | None \<Rightarrow> map_of (own_props (r_completed r)) k)"
  using assms
  by (simp add: completed_merge spread2_def keys_assign_props map_of_assign_props
      map_add_def)

text \<open>
  The example of the specification: local \<open>{a: true}\<close>, remote \<open>{a: false, b: true}\<close>
  merge to \<open>{a: true, b: true}\<close>.
\<close>

lemma merge_specification_example:
  "authenticated ((new_manager 100 True True)
      \<lparr> state := (loadDefaultState 100)\<lparr> completed := JObj [(''a'', JBool True)] \<rparr> \<rparr>) \<and>
   distinct (map fst (own_props (completed (state
      ((new_manager 100 True True)
         \<lparr> state := (loadDefaultState 100)\<lparr> completed := JObj [(''a'', JBool True)] \<rparr> \<rparr>))))) \<and>
   distinct (map fst (own_props (r_completed
      \<lparr> r_province = JStr ''ON'', r_industry = JStr ''general'', r_hiring = JStr ''no'',
        r_revenue = JStr ''gte30'',
        r_completed = JObj [(''a'', JBool False), (''b'', JBool True)],
        r_version = 1, updated_at = 200 \<rparr>))) \<and>
   map_of (own_props (completed (state (mergeLocalAndCloudData 300 sample_codec
      (Row \<lparr> r_province = JStr ''ON'', r_industry = JStr ''general'', r_hiring = JStr ''no'',
             r_revenue = JStr ''gte30'',
             r_completed = JObj [(''a'', JBool False), (''b'', JBool True)],
             r_version = 1, updated_at = 200 \<rparr>)
      (Saved 300 2)
      ((new_manager 100 True True)
         \<lparr> state := (loadDefaultState 100)\<lparr> completed := JObj [(''a'', JBool True)] \<rparr> \<rparr>))))) ''a'' =
     Some (JBool True) \<and>
   map_of (own_props (completed (state (mergeLocalAndCloudData 300 sample_codec
      (Row \<lparr> r_province = JStr ''ON'', r_industry = JStr ''general'', r_hiring = JStr ''no'',
             r_revenue = JStr ''gte30'',
             r_completed = JObj [(''a'', JBool False), (''b'', JBool True)],
             r_version = 1, updated_at = 200 \<rparr>)
      (Saved 300 2)
      ((new_manager 100 True True)
         \<lparr> state := (loadDefaultState 100)\<lparr> completed := JObj [(''a'', JBool True)] \<rparr> \<rparr>))))) ''b'' =
     Some (JBool True)"
  using completed_merge_spread
    [where w = "(new_manager 100 True True)
           \<lparr> state := (loadDefaultState 100)\<lparr> completed := JObj [(''a'', JBool True)] \<rparr> \<rparr>"
       and r = "\<lparr> r_province = JStr ''ON'', r_industry = JStr ''general'', r_hiring = JStr ''no'',
          r_revenue = JStr ''gte30'',
          r_completed = JObj [(''a'', JBool False), (''b'', JBool True)],
          r_version = 1, updated_at = 200 \<rparr>"
       and now = 300 and cd = sample_codec and out = "Saved 300 2" and k = "''a''"]
    completed_merge_spread
    [where w = "(new_manager 100 True True)
           \<lparr> state := (loadDefaultState 100)\<lparr> completed := JObj [(''a'', JBool True)] \<rparr> \<rparr>"
       and r = "\<lparr> r_province = JStr ''ON'', r_industry = JStr ''general'', r_hiring = JStr ''no'',
          r_revenue = JStr ''gte30'',
          r_completed = JObj [(''a'', JBool False), (''b'', JBool True)],
          r_version = 1, updated_at = 200 \<rparr>"
       and now = 300 and cd = sample_codec and out = "Saved 300 2" and k = "''b''"]
  by (simp add: new_manager_def)

text \<open>The row that the merge uploads afterwards, when no upload is in flight.\<close>

lemma upserts_merge:
  "authenticated w \<Longrightarrow> \<not> syncInProgress w \<Longrightarrow>
   upserts (mergeLocalAndCloudData now cd (Row r) out w) =
     upserts w @
     [[(''province'', js_or (province (state w)) (r_province r)),
       (''industry'', js_or (industry (state w)) (r_industry r)),
       (''hiring'', js_or (hiring (state w)) (r_hiring r)),
       (''revenue'', js_or (revenue (state w)) (r_revenue r)),
       (''completed'', spread2 (r_completed r) (completed (state w)))]]"
  using with_fields_mergedData [of "state w" r]
  by (simp add: mergeLocalAndCloudData_def Let_def progressData_def content_def)

text \<open>
  C1 (the code at the failing input): the local completion map is \<open>{a: false}\<close>, last
  modified at 100; the remote row, updated at 200, has \<open>{a: true}\<close>. The comments in
  \<open>mergeLocalAndCloudData\<close> announce the most recent completion per step and a union of
  both maps. The merged map is \<open>{a: false}\<close>: the later, completed remote step is lost,
  and the row that the merge then uploads carries \<open>{a: false}\<close> as well.
\<close>

theorem merge_loses_later_remote_completion:
  "lastModified (meta (state ((new_manager 100 True True)
      \<lparr> state := (loadDefaultState 100)\<lparr> completed := JObj [(''a'', JBool False)] \<rparr> \<rparr>))) = 100 \<and>
   completed (state (mergeLocalAndCloudData 300 sample_codec
      (Row \<lparr> r_province = JStr ''ON'', r_industry = JStr ''general'', r_hiring = JStr ''no'',
             r_revenue = JStr ''gte30'', r_completed = JObj [(''a'', JBool True)],
             r_version = 1, updated_at = 200 \<rparr>)
      (Saved 300 2)
      ((new_manager 100 True True)
         \<lparr> state := (loadDefaultState 100)\<lparr> completed := JObj [(''a'', JBool False)] \<rparr> \<rparr>))) =
     JObj [(''a'', JBool False)] \<and>
   map (\<lambda>row. map_of row ''completed'') (upserts (mergeLocalAndCloudData 300 sample_codec
      (Row \<lparr> r_province = JStr ''ON'', r_industry = JStr ''general'', r_hiring = JStr ''no'',
             r_revenue = JStr ''gte30'', r_completed = JObj [(''a'', JBool True)],
             r_version = 1, updated_at = 200 \<rparr>)
      (Saved 300 2)
      ((new_manager 100 True True)
         \<lparr> state := (loadDefaultState 100)\<lparr> completed := JObj [(''a'', JBool False)] \<rparr> \<rparr>))) =
     [Some (JObj [(''a'', JBool False)])]"
  by (simp add: completed_merge upserts_merge spread2_def assign_props_def new_manager_def
      loadDefaultState_def)

text \<open>At that input the merged flag of step \<open>a\<close> is not \<open>true\<close>.\<close>

theorem merge_loses_later_remote_completion_witness:
  "map_of (own_props (completed (state (mergeLocalAndCloudData 300 sample_codec
      (Row \<lparr> r_province = JStr ''ON'', r_industry = JStr ''general'', r_hiring = JStr ''no'',
             r_revenue = JStr ''gte30'', r_completed = JObj [(''a'', JBool True)],
             r_version = 1, updated_at = 200 \<rparr>)
      (Saved 300 2)
      ((new_manager 100 True True)
         \<lparr> state := (loadDefaultState 100)\<lparr> completed := JObj [(''a'', JBool False)] \<rparr> \<rparr>))))) ''a''
     \<noteq> Some (JBool True)"
  using merge_loses_later_remote_completion by simp

text \<open>
  C4 (the code at the failing input): local province \<open>'ON'\<close> last modified at 100, remote
  province \<open>'BC'\<close> updated at 200. Both times exist and the remote one is later, yet the
  merge keeps \<open>'ON'\<close>: the local time is read from the object that \<open>getState\<close> returned,
  which carries no metadata, so every comparison takes the branch for a missing time.
\<close>

theorem merge_ignores_local_time:
  "lastModified (meta (state
      ((new_manager 100 True True)
         \<lparr> state := (loadDefaultState 100)\<lparr> province := JStr ''ON'' \<rparr> \<rparr>))) = 100 \<and>
   province (state (mergeLocalAndCloudData 300 sample_codec
      (Row \<lparr> r_province = JStr ''BC'', r_industry = JStr ''general'', r_hiring = JStr ''no'',
             r_revenue = JStr ''gte30'', r_completed = JObj [],
             r_version = 1, updated_at = 200 \<rparr>)
      (Saved 300 2)
      ((new_manager 100 True True)
         \<lparr> state := (loadDefaultState 100)\<lparr> province := JStr ''ON'' \<rparr> \<rparr>))) = JStr ''ON'' \<and>
   getMostRecent (JStr ''ON'') (JStr ''BC'') (Some 100) (Some 200) = JStr ''BC''"
  by (simp add: province_merge js_or_def loadDefaultState_def getMostRecent_def time_set_def
      new_manager_def)

text \<open>At that input the merged province is not the remote, later value.\<close>

theorem merge_ignores_local_time_witness:
  "province (state (mergeLocalAndCloudData 300 sample_codec
      (Row \<lparr> r_province = JStr ''BC'', r_industry = JStr ''general'', r_hiring = JStr ''no'',
             r_revenue = JStr ''gte30'', r_completed = JObj [],
             r_version = 1, updated_at = 200 \<rparr>)
      (Saved 300 2)
      ((new_manager 100 True True)
         \<lparr> state := (loadDefaultState 100)\<lparr> province := JStr ''ON'' \<rparr> \<rparr>))) \<noteq> JStr ''BC''"
  using merge_ignores_local_time by simp

section \<open>Sync down on sign-in\<close>

lemma state_overwritten:
  "state (clear_local_changes (persistLocal now cd w)) =
     (state w)\<lparr> meta := (meta (state w))\<lparr> lastModified := now, hasLocalChanges := False \<rparr> \<rparr>"
  by (simp add: clear_local_changes_def persistLocal_state)

lemma syncFromCloud_Row_new:
  assumes "authenticated w"
    and "updated_at r > lastModified (meta (state w)) \<or> \<not> time_set (syncedAt (meta (state w)))"
  shows "state (snd (syncFromCloud now cd (Row r) out w)) =
           (cloud_state now r)\<lparr> meta := \<lparr> lastModified = now, version = r_version r,
                                           syncedAt = Some now, hasLocalChanges = False \<rparr> \<rparr>"
    and "fst (syncFromCloud now cd (Row r) out w)"
  using assms by (auto simp: syncFromCloud_def Let_def state_overwritten cloud_state_def)

lemma syncFromCloud_Row_old:
  assumes "\<not> updated_at r > lastModified (meta (state w))"
    and "time_set (syncedAt (meta (state w)))"
  shows "state (snd (syncFromCloud now cd (Row r) out w)) = state w"
  using assms by (simp add: syncFromCloud_def Let_def)

lemma syncFromCloud_no_row:
  "content (state (snd (syncFromCloud now cd NoRow out w))) = content (state w)"
  "content (state (snd (syncFromCloud now cd FetchFailed out w))) = content (state w)"
  by (simp_all add: syncFromCloud_def Let_def split: sum.splits)

text \<open>The metadata that \<open>persistLocal\<close> writes to storage says that there are local changes.\<close>

lemma persistLocal_meta_item:
  "storage (persistLocal now cd w) ''_state_meta'' =
     Some (stringify_meta cd ((meta (state w))\<lparr> lastModified := now, hasLocalChanges := True \<rparr>))"
  by (simp add: persistLocal_def Let_def)

lemma sync_down_example:
  "snd (syncFromCloud 300 sample_codec
      (Row \<lparr> r_province = JStr ''BC'', r_industry = JStr ''general'', r_hiring = JStr ''no'',
             r_revenue = JStr ''gte30'', r_completed = JNull, r_version = 7,
             updated_at = 200 \<rparr>)
      SaveFailed
      ((new_manager 100 True True)
         \<lparr> state := (loadDefaultState 100)\<lparr> province := JStr ''ON'' \<rparr> \<rparr>)) = synced_down"
  by (simp add: synced_down_def)

text \<open>
  C2 (what the code does when it overwrites): on a sync-down of a signed-in user that
  finds a remote row whose \<open>updatedAt\<close> is later than the local \<open>lastModified\<close>, or
  whose local record never synced, every remote content field replaces the local one
  (an absent remote completion map counts as empty) and the metadata takes the row's
  version and a fresh \<open>syncedAt\<close>. The assignment \<open>lastModified: cloudModified\<close> does not
  last: \<open>persistLocal\<close>, called next, stamps \<open>lastModified\<close> with the time of the call,
  writes \<open>hasLocalChanges: true\<close> into the persisted metadata, sets \<open>pendingChanges\<close> and
  schedules an upload 2000 ms later. Only the in-memory flag is reset afterwards.
\<close>

theorem syncFromCloud_restamps_and_uploads:
  assumes "authenticated w"
    and "updated_at r > lastModified (meta (state w)) \<or> syncedAt (meta (state w)) = None"
  shows "fst (syncFromCloud now cd (Row r) out w) \<and>
         content (state (snd (syncFromCloud now cd (Row r) out w))) =
           (r_province r, r_industry r, r_hiring r, r_revenue r,
            (if truthy (r_completed r) then r_completed r else JObj [])) \<and>
         meta (state (snd (syncFromCloud now cd (Row r) out w))) =
           \<lparr> lastModified = now, version = r_version r, syncedAt = Some now,
             hasLocalChanges = False \<rparr> \<and>
         storage (snd (syncFromCloud now cd (Row r) out w)) ''_state_meta'' =
           Some (stringify_meta cd \<lparr> lastModified = now, version = r_version r,
                                     syncedAt = Some now, hasLocalChanges = True \<rparr>) \<and>
         pendingChanges (snd (syncFromCloud now cd (Row r) out w)) \<and>
         syncTimeout (snd (syncFromCloud now cd (Row r) out w)) = Some (Suc (lastHandle w)) \<and>
         (Suc (lastHandle w), now + 2000, SyncCallback) \<in>
            set (timers (snd (syncFromCloud now cd (Row r) out w)))"
proof -
  from assms(2) have c: "updated_at r > lastModified (meta (state w)) \<or>
                 \<not> time_set (syncedAt (meta (state w)))"
    by (auto simp: time_set_def)
  note s = syncFromCloud_Row_new [OF assms(1) c, of now cd out]
  have e: "snd (syncFromCloud now cd (Row r) out w) =
             (clear_local_changes (persistLocal now cd
                (w\<lparr> currentSyncStatus := Some Syncing, state := cloud_state now r \<rparr>)))
             \<lparr> lastSyncTime := Some now, currentSyncStatus := Some Synced \<rparr>"
    using assms(1) c by (auto simp: syncFromCloud_def Let_def)
  show ?thesis
    using s by (simp add: e cloud_state_def content_def js_or_def clear_local_changes_def
        persistLocal_meta_item)
qed

text \<open>
  The run \<open>synced_down\<close>: the record takes \<open>'BC'\<close>; its \<open>lastModified\<close> is 300, not the
  row's 200; an upload timer is due at 2300, and when it runs it sends the downloaded
  record back to the cloud.
\<close>

theorem syncFromCloud_restamps_and_uploads_witness:
  "authenticated ((new_manager 100 True True)
      \<lparr> state := (loadDefaultState 100)\<lparr> province := JStr ''ON'' \<rparr> \<rparr>) \<and>
   lastModified (meta (state ((new_manager 100 True True)
      \<lparr> state := (loadDefaultState 100)\<lparr> province := JStr ''ON'' \<rparr> \<rparr>))) = 100 \<and>
   syncedAt (meta (state ((new_manager 100 True True)
      \<lparr> state := (loadDefaultState 100)\<lparr> province := JStr ''ON'' \<rparr> \<rparr>))) = None \<and>
   province (state synced_down) = JStr ''BC'' \<and>
   lastModified (meta (state synced_down)) = 300 \<and>
   \<not> hasLocalChanges (meta (state synced_down)) \<and>
   pendingChanges synced_down \<and>
   due_times (sync_timers synced_down) = [2300] \<and>
   upserts synced_down = [] \<and>
   upserts (run_timers 1 sample_codec (Saved 2300 8) synced_down) =
     [[(''province'', JStr ''BC''), (''industry'', JStr ''general''), (''hiring'', JStr ''no''),
       (''revenue'', JStr ''gte30''), (''completed'', JObj [])]]"
proof -
  let ?w = "(new_manager 100 True True)
      \<lparr> state := (loadDefaultState 100)\<lparr> province := JStr ''ON'' \<rparr> \<rparr>"
  let ?r = "\<lparr> r_province = JStr ''BC'', r_industry = JStr ''general'', r_hiring = JStr ''no'',
             r_revenue = JStr ''gte30'', r_completed = JNull, r_version = 7,
             updated_at = 200 \<rparr>"
  have a: "authenticated ?w" "lastModified (meta (state ?w)) = 100"
    "syncedAt (meta (state ?w)) = None" "lastHandle ?w = 0" "timers ?w = []" "upserts ?w = []"
    by (simp_all add: new_manager_def loadDefaultState_def)
  have t: "timers synced_down = [(1, 2300, SyncCallback)]" "upserts synced_down = []"
    "authenticated synced_down" "\<not> syncInProgress synced_down"
    by (simp_all add: synced_down_def syncFromCloud_def Let_def clear_local_changes_def
        new_manager_def loadDefaultState_def clearSyncTimeout_def)
  have u: "upserts (run_timers 1 sample_codec (Saved 2300 8) synced_down) =
             upserts synced_down @ [progressData (state synced_down)]"
    using syncFromCloud_restamps_and_uploads [OF a(1), of ?r 300 sample_codec SaveFailed] a t
    by (simp add: sync_down_example next_timer_def fire_timer_def sync_callback_def Let_def)
  show ?thesis
    using syncFromCloud_restamps_and_uploads [OF a(1), of ?r 300 sample_codec SaveFailed] a t u
    by (simp add: sync_down_example content_def due_times_def sync_timers_def
        progressData_def)
qed

section \<open>When the migration dialog is shown\<close>

lemma dialog_iff_hasProgressData:
  "fst (handleUserSignIn choice now cd fetched out w) \<longleftrightarrow>
     hasProgressData (state w) = Inr True"
  by (simp add: handleUserSignIn_def split: sum.splits bool.splits)

lemma hasProgressData_object:
  "province s = JStr p \<Longrightarrow> completed s = JObj kvs \<Longrightarrow>
     hasProgressData s =
       Inr (p \<noteq> [] \<or> kvs \<noteq> [] \<or> industry s \<noteq> JStr ''general'' \<or>
            hiring s \<noteq> JStr ''no'' \<or> revenue s \<noteq> JStr ''gte30'')"
  by (auto simp: hasProgressData_def)

text \<open>
  C3 (as the code has it): for a progress record whose province is a string and whose
  completion map is an object, the migration dialog is presented on sign-in if and only
  if the province is non-empty, or the completion map holds at least one key (whatever
  its value), or industry, hiring or revenue differs from its default.
\<close>

theorem dialog_iff_any_key_or_non_default:
  assumes "province (state w) = JStr p"
    and "completed (state w) = JObj kvs"
  shows "fst (handleUserSignIn choice now cd fetched out w) \<longleftrightarrow>
           (p \<noteq> [] \<or> kvs \<noteq> [] \<or> industry (state w) \<noteq> JStr ''general'' \<or>
            hiring (state w) \<noteq> JStr ''no'' \<or> revenue (state w) \<noteq> JStr ''gte30'')"
  using assms by (simp add: dialog_iff_hasProgressData hasProgressData_object)

text \<open>A record with nothing but defaults gets no dialog; one completed step gets it.\<close>

theorem dialog_iff_any_key_or_non_default_witness:
  "province (state (new_manager 100 True True)) = JStr [] \<and>
   completed (state (new_manager 100 True True)) = JObj [] \<and>
   \<not> fst (handleUserSignIn ChooseMerge 300 sample_codec NoRow SaveFailed
            (new_manager 100 True True)) \<and>
   fst (handleUserSignIn ChooseMerge 300 sample_codec NoRow SaveFailed
          ((new_manager 100 True True)
             \<lparr> state := (loadDefaultState 100)
                 \<lparr> completed := JObj [(''structure'', JBool True)] \<rparr> \<rparr>))"
  using dialog_iff_any_key_or_non_default
    [of "new_manager 100 True True" "[]" "[]" ChooseMerge 300 sample_codec NoRow SaveFailed]
    dialog_iff_any_key_or_non_default
    [of "(new_manager 100 True True)
           \<lparr> state := (loadDefaultState 100)
               \<lparr> completed := JObj [(''structure'', JBool True)] \<rparr> \<rparr>"
        "[]" "[(''structure'', JBool True)]" ChooseMerge 300 sample_codec NoRow SaveFailed]
  by (simp add: new_manager_def loadDefaultState_def)

text \<open>
  A record whose only deviation from the defaults is a step unchecked again,
  \<open>completed = {a: false}\<close>, is not meaningful in the words of the specification, and
  the dialog is presented all the same.
\<close>

theorem dialog_for_false_flag_counterexample:
  "\<not> spec_meaningful (state ((new_manager 100 True True)
       \<lparr> state := (loadDefaultState 100)\<lparr> completed := JObj [(''a'', JBool False)] \<rparr> \<rparr>)) \<and>
   fst (handleUserSignIn ChooseMerge 300 sample_codec NoRow SaveFailed
          ((new_manager 100 True True)
             \<lparr> state := (loadDefaultState 100)\<lparr> completed := JObj [(''a'', JBool False)] \<rparr> \<rparr>))"
  by (simp add: dialog_iff_hasProgressData hasProgressData_def spec_meaningful_def
      loadDefaultState_def)

section \<open>Loading the persisted record\<close>

lemma getItem_or_cases:
  "getItem_or st k d = (case st k of None \<Rightarrow> d | Some t \<Rightarrow> if t = [] then d else t)"
  by (simp add: getItem_or_def split: option.splits)

lemma loadLocalState_parse_error:
  "parse cd (getItem_or st ''completed'' ''{}'') = None \<Longrightarrow>
     loadLocalState now cd st = loadDefaultState now"
  by (simp add: loadLocalState_def load_attempt_def)

lemma loadLocalState_meta_error:
  "parse_meta cd (getItem_or st ''_state_meta''
                    (stringify_meta cd (meta (loadDefaultState now)))) = None \<Longrightarrow>
     loadLocalState now cd st = loadDefaultState now"
  by (simp add: loadLocalState_def load_attempt_def split: option.splits)

lemma loadLocalState_parsed:
  "parse cd (getItem_or st ''completed'' ''{}'') = Some c \<Longrightarrow>
   parse_meta cd (getItem_or st ''_state_meta''
                    (stringify_meta cd (meta (loadDefaultState now)))) = Some m \<Longrightarrow>
     loadLocalState now cd st =
       \<lparr> province = JStr (getItem_or st ''province'' []),
         industry = JStr (getItem_or st ''industry'' ''general''),
         hiring = JStr (getItem_or st ''hiring'' ''no''),
         revenue = JStr (getItem_or st ''revenue'' ''gte30''),
         completed = c, meta = m \<rparr>"
  by (simp add: loadLocalState_def load_attempt_def)

text \<open>
  C5 (as the code has it): \<open>loadLocalState\<close> returns a progress record for every content
  of storage. When the stored completion map or the stored metadata is not valid JSON,
  the record returned is the complete default record: the other stored fields are
  dropped with it. When both are valid, each of province, industry, hiring and revenue
  is the stored text, or its default where the item is missing or empty, and the
  completion map and metadata are the parsed values.
\<close>

theorem loadLocalState_defaults_on_error:
  "(parse cd (getItem_or st ''completed'' ''{}'') = None \<or>
    parse_meta cd (getItem_or st ''_state_meta''
                     (stringify_meta cd (meta (loadDefaultState now)))) = None \<longrightarrow>
      loadLocalState now cd st = loadDefaultState now) \<and>
   (parse cd (getItem_or st ''completed'' ''{}'') = Some c \<and>
    parse_meta cd (getItem_or st ''_state_meta''
                     (stringify_meta cd (meta (loadDefaultState now)))) = Some m \<longrightarrow>
      province (loadLocalState now cd st) =
        JStr (case st ''province'' of None \<Rightarrow> [] | Some t \<Rightarrow> t) \<and>
      industry (loadLocalState now cd st) =
        JStr (case st ''industry'' of None \<Rightarrow> ''general''
              | Some t \<Rightarrow> if t = [] then ''general'' else t) \<and>
      hiring (loadLocalState now cd st) =
        JStr (case st ''hiring'' of None \<Rightarrow> ''no''
              | Some t \<Rightarrow> if t = [] then ''no'' else t) \<and>
      revenue (loadLocalState now cd st) =
        JStr (case st ''revenue'' of None \<Rightarrow> ''gte30''
              | Some t \<Rightarrow> if t = [] then ''gte30'' else t) \<and>
      completed (loadLocalState now cd st) = c \<and>
      meta (loadLocalState now cd st) = m)"
proof (intro conjI impI)
  assume "parse cd (getItem_or st ''completed'' ''{}'') = None \<or>
          parse_meta cd (getItem_or st ''_state_meta''
                           (stringify_meta cd (meta (loadDefaultState now)))) = None"
  then show "loadLocalState now cd st = loadDefaultState now"
    using loadLocalState_parse_error loadLocalState_meta_error by blast
next
  assume a: "parse cd (getItem_or st ''completed'' ''{}'') = Some c \<and>
             parse_meta cd (getItem_or st ''_state_meta''
                              (stringify_meta cd (meta (loadDefaultState now)))) = Some m"
  note e = loadLocalState_parsed [OF conjunct1 [OF a] conjunct2 [OF a]]
  show "province (loadLocalState now cd st) =
          JStr (case st ''province'' of None \<Rightarrow> [] | Some t \<Rightarrow> t)"
    by (simp add: e getItem_or_cases split: option.splits)
  show "industry (loadLocalState now cd st) =
          JStr (case st ''industry'' of None \<Rightarrow> ''general''
                | Some t \<Rightarrow> if t = [] then ''general'' else t)"
    by (simp add: e getItem_or_cases)
  show "hiring (loadLocalState now cd st) =
          JStr (case st ''hiring'' of None \<Rightarrow> ''no''
                | Some t \<Rightarrow> if t = [] then ''no'' else t)"
    by (simp add: e getItem_or_cases)
  show "revenue (loadLocalState now cd st) =
          JStr (case st ''revenue'' of None \<Rightarrow> ''gte30''
                | Some t \<Rightarrow> if t = [] then ''gte30'' else t)"
    by (simp add: e getItem_or_cases)
  show "completed (loadLocalState now cd st) = c" by (simp add: e)
  show "meta (loadLocalState now cd st) = m" by (simp add: e)
qed

text \<open>
  Two stores: one whose completion map is the broken text \<open>{bad\<close> beside the province
  \<open>'ON'\<close> loads as the default record; one that holds only the province \<open>'ON'\<close> loads with
  that province and the defaults around it.
\<close>

theorem loadLocalState_defaults_on_error_witness:
  "parse sample_codec
     (getItem_or [''province'' \<mapsto> ''ON'', ''completed'' \<mapsto> ''{bad''] ''completed'' ''{}'') = None \<and>
   loadLocalState 100 sample_codec [''province'' \<mapsto> ''ON'', ''completed'' \<mapsto> ''{bad''] =
     loadDefaultState 100 \<and>
   parse sample_codec (getItem_or [''province'' \<mapsto> ''ON''] ''completed'' ''{}'') =
     Some (JObj []) \<and>
   province (loadLocalState 100 sample_codec [''province'' \<mapsto> ''ON'']) = JStr ''ON'' \<and>
   industry (loadLocalState 100 sample_codec [''province'' \<mapsto> ''ON'']) = JStr ''general'' \<and>
   completed (loadLocalState 100 sample_codec [''province'' \<mapsto> ''ON'']) = JObj []"
  using loadLocalState_defaults_on_error
    [of sample_codec "[''province'' \<mapsto> ''ON'', ''completed'' \<mapsto> ''{bad'']" 100]
    loadLocalState_defaults_on_error
    [of sample_codec "[''province'' \<mapsto> ''ON'']" 100 "JObj []"
        "\<lparr> lastModified = 0, version = 1, syncedAt = None, hasLocalChanges = False \<rparr>"]
  by (simp add: sample_codec_def getItem_or_def)

text \<open>
  With the province \<open>'ON'\<close> stored beside a completion map that is not JSON, the loaded
  province is the default, not the stored one.
\<close>

theorem loadLocalState_drops_fields_counterexample:
  "parse sample_codec ''{bad'' = None \<and>
   province (loadLocalState 100 sample_codec
               [''province'' \<mapsto> ''ON'', ''completed'' \<mapsto> ''{bad'']) = JStr [] \<and>
   province (loadLocalState 100 sample_codec
               [''province'' \<mapsto> ''ON'', ''completed'' \<mapsto> ''{bad'']) \<noteq> JStr ''ON''"
  by (simp add: sample_codec_def loadLocalState_def load_attempt_def getItem_or_def
      loadDefaultState_def)

section \<open>Import and export\<close>

lemma state_syncToCloud_unawaited [simp]:
  "state (syncToCloud_unawaited now w) = state w"
  by (cases "syncToCloud_begin now w")
    (simp_all add: syncToCloud_unawaited_def syncToCloud_begin_fields)

lemma importProgress_ok:
  assumes "filter_fields d validKeys [] = Inr fd"
  shows "fst (importProgress d now cd w)"
    and "content (state (snd (importProgress d now cd w))) = content (with_fields (state w) fd)"
  using assms by (simp_all add: importProgress_def Let_def)

lemma importProgress_error:
  "filter_fields d validKeys [] = Inl e \<Longrightarrow> importProgress d now cd w = (False, w)"
  by (simp add: importProgress_def)

text \<open>The loop copies keys of its list only.\<close>

lemma filter_fields_keys:
  "filter_fields d ks acc = Inr fd \<Longrightarrow> fst ` set fd \<subseteq> fst ` set acc \<union> set ks"
proof (induction ks arbitrary: acc)
  case Nil
  then show ?case by simp
next
  case (Cons k ks)
  show ?case
  proof (cases "hasOwnProperty d k")
    case (Inl e)
    with Cons.prems show ?thesis by simp
  next
    case (Inr b)
    show ?thesis
    proof (cases b)
      case True
      with Inr Cons.prems
      have "filter_fields d ks (AList.update k (get_prop (own_props d) k) acc) = Inr fd"
        by simp
      from Cons.IH [OF this] show ?thesis
        by (auto simp: AList.dom_update)
    next
      case False
      with Inr Cons.prems have "filter_fields d ks acc = Inr fd" by simp
      from Cons.IH [OF this] show ?thesis by auto
    qed
  qed
qed

text \<open>On an object with the inherited \<open>hasOwnProperty\<close>, the loop copies what is there.\<close>

lemma filter_fields_object:
  assumes "''hasOwnProperty'' \<notin> fst ` set kvs"
  shows "\<exists>fd. filter_fields (JObj kvs) ks acc = Inr fd \<and>
           (\<forall>k. map_of fd k = (if k \<in> set ks \<and> k \<in> fst ` set kvs then map_of kvs k
                               else map_of acc k))"
proof (induction ks arbitrary: acc)
  case Nil
  then show ?case by simp
next
  case (Cons k ks)
  show ?case
  proof (cases "k \<in> fst ` set kvs")
    case True
    then obtain v where v: "map_of kvs k = Some v"
      by (metis domD dom_map_of_conv_image_fst)
    from Cons.IH [of "AList.update k (get_prop kvs k) acc"]
    obtain fd where fd: "filter_fields (JObj kvs) ks (AList.update k (get_prop kvs k) acc) = Inr fd"
      and m: "\<And>j. map_of fd j =
                (if j \<in> set ks \<and> j \<in> fst ` set kvs then map_of kvs j
                 else map_of (AList.update k (get_prop kvs k) acc) j)"
      by blast
    have "filter_fields (JObj kvs) (k # ks) acc = Inr fd"
      using assms True fd by simp
    moreover have "\<And>j. map_of fd j =
        (if j \<in> set (k # ks) \<and> j \<in> fst ` set kvs then map_of kvs j else map_of acc j)"
      using True v by (auto simp: m AList.update_conv' get_prop_def)
    ultimately show ?thesis by blast
  next
    case False
    from Cons.IH [of acc]
    obtain fd where fd: "filter_fields (JObj kvs) ks acc = Inr fd"
      and m: "\<And>j. map_of fd j =
                (if j \<in> set ks \<and> j \<in> fst ` set kvs then map_of kvs j else map_of acc j)"
      by blast
    have "filter_fields (JObj kvs) (k # ks) acc = Inr fd"
      using assms False fd by simp
    moreover have "\<And>j. map_of fd j =
        (if j \<in> set (k # ks) \<and> j \<in> fst ` set kvs then map_of kvs j else map_of acc j)"
      using False by (auto simp: m)
    ultimately show ?thesis by blast
  qed
qed

lemma map_of_absent: "k \<notin> fst ` set kvs \<Longrightarrow> map_of kvs k = None"
  by (simp add: map_of_eq_None_iff)

lemma importProgress_object:
  assumes "''hasOwnProperty'' \<notin> fst ` set kvs"
  shows "fst (importProgress (JObj kvs) now cd w) \<and>
         content (state (snd (importProgress (JObj kvs) now cd w))) =
           ((case map_of kvs ''province'' of None \<Rightarrow> province (state w) | Some v \<Rightarrow> v),
            (case map_of kvs ''industry'' of None \<Rightarrow> industry (state w) | Some v \<Rightarrow> v),
            (case map_of kvs ''hiring'' of None \<Rightarrow> hiring (state w) | Some v \<Rightarrow> v),
            (case map_of kvs ''revenue'' of None \<Rightarrow> revenue (state w) | Some v \<Rightarrow> v),
            (case map_of kvs ''completed'' of None \<Rightarrow> completed (state w) | Some v \<Rightarrow> v))"
proof -
  from filter_fields_object [OF assms, of validKeys "[]"]
  obtain fd where fd: "filter_fields (JObj kvs) validKeys [] = Inr fd"
    and m: "\<And>k. map_of fd k =
              (if k \<in> set validKeys \<and> k \<in> fst ` set kvs then map_of kvs k else map_of [] k)"
    by blast
  have "map_of fd ''province'' = map_of kvs ''province''"
    "map_of fd ''industry'' = map_of kvs ''industry''"
    "map_of fd ''hiring'' = map_of kvs ''hiring''"
    "map_of fd ''revenue'' = map_of kvs ''revenue''"
    "map_of fd ''completed'' = map_of kvs ''completed''"
    by (auto simp: m validKeys_def map_of_absent)
  then have "content (with_fields (state w) fd) =
      ((case map_of kvs ''province'' of None \<Rightarrow> province (state w) | Some v \<Rightarrow> v),
       (case map_of kvs ''industry'' of None \<Rightarrow> industry (state w) | Some v \<Rightarrow> v),
       (case map_of kvs ''hiring'' of None \<Rightarrow> hiring (state w) | Some v \<Rightarrow> v),
       (case map_of kvs ''revenue'' of None \<Rightarrow> revenue (state w) | Some v \<Rightarrow> v),
       (case map_of kvs ''completed'' of None \<Rightarrow> completed (state w) | Some v \<Rightarrow> v))"
    by (simp add: with_fields_def content_def)
  with importProgress_ok [OF fd, of now cd w] show ?thesis by simp
qed

text \<open>The index keys of a string are digit strings, never a content-field name.\<close>

lemma last_show_nat: "last (show_nat n) = char_of (48 + n mod 10)"
  by (induction n rule: show_nat.induct) (subst show_nat.simps, simp)

lemma show_nat_not_field: "show_nat n \<notin> set validKeys"
proof
  assume "show_nat n \<in> set validKeys"
  then have "last (show_nat n) \<in> {CHR ''e'', CHR ''y'', CHR ''g'', CHR ''d''}"
    by (auto simp: validKeys_def)
  then have "(of_char (last (show_nat n)) :: nat) \<in> {101, 121, 103, 100}"
    by auto
  moreover have "(of_char (last (show_nat n)) :: nat) = 48 + n mod 10"
  proof -
    have "n mod 10 < 10" by simp
    then have "(48 + n mod 10) mod 256 = 48 + n mod 10" by simp
    then show ?thesis by (simp add: last_show_nat)
  qed
  ultimately show False by auto
qed

lemma hasOwnProperty_string:
  "k \<in> set validKeys \<Longrightarrow> hasOwnProperty (JStr s) k = Inr False"
proof -
  assume k: "k \<in> set validKeys"
  have "k \<noteq> ''length''" using k by (auto simp: validKeys_def)
  moreover have "k \<notin> set (map fst (own_props (JStr s)))"
  proof
    assume "k \<in> set (map fst (own_props (JStr s)))"
    then have "k \<in> set (map show_nat [0..<length s])" by simp
    then obtain n where "k = show_nat n" by auto
    with k show_nat_not_field show False by blast
  qed
  ultimately show ?thesis by simp
qed

lemma filter_fields_primitive:
  assumes "\<forall>k \<in> set ks. hasOwnProperty d k = Inr False"
  shows "filter_fields d ks acc = Inr acc"
  using assms by (induction ks arbitrary: acc) simp_all

lemma importProgress_primitive:
  assumes "d = JBool b \<or> d = JNum n \<or> d = JStr s"
  shows "fst (importProgress d now cd w) \<and>
         content (state (snd (importProgress d now cd w))) = content (state w)"
proof -
  have "\<forall>k \<in> set validKeys. hasOwnProperty d k = Inr False"
    using assms hasOwnProperty_string by auto
  then have "filter_fields d validKeys [] = Inr []"
    by (rule filter_fields_primitive)
  from importProgress_ok [OF this, of now cd w] show ?thesis
    by (simp add: with_fields_def content_def)
qed

text \<open>
  C8 (as the code has it): \<open>importProgress\<close> copies into the state only properties named
  province, industry, hiring, revenue or completed, whatever else the payload holds.
  For \<open>undefined\<close> and \<open>null\<close>, and for an object that hides \<open>hasOwnProperty\<close> behind an
  own property, it returns false and changes nothing at all. For an object it returns
  true, each content field taking the payload's value where the payload has that
  property and keeping its own otherwise. For any other payload that is not an object
  (a boolean, a number, a string) it also returns true, with the content fields
  unchanged.
\<close>

theorem importProgress_known_fields_only:
  "(filter_fields d validKeys [] = Inr fd \<longrightarrow> fst ` set fd \<subseteq> set validKeys) \<and>
   (d = JUndefined \<or> d = JNull \<longrightarrow> importProgress d now cd w = (False, w)) \<and>
   (d = JObj kvs \<and> ''hasOwnProperty'' \<in> fst ` set kvs \<longrightarrow>
      importProgress d now cd w = (False, w)) \<and>
   (d = JObj kvs \<and> ''hasOwnProperty'' \<notin> fst ` set kvs \<longrightarrow>
      fst (importProgress d now cd w) \<and>
      content (state (snd (importProgress d now cd w))) =
        ((case map_of kvs ''province'' of None \<Rightarrow> province (state w) | Some v \<Rightarrow> v),
         (case map_of kvs ''industry'' of None \<Rightarrow> industry (state w) | Some v \<Rightarrow> v),
         (case map_of kvs ''hiring'' of None \<Rightarrow> hiring (state w) | Some v \<Rightarrow> v),
         (case map_of kvs ''revenue'' of None \<Rightarrow> revenue (state w) | Some v \<Rightarrow> v),
         (case map_of kvs ''completed'' of None \<Rightarrow> completed (state w) | Some v \<Rightarrow> v))) \<and>
   (d = JBool b \<or> d = JNum n \<or> d = JStr s \<longrightarrow>
      fst (importProgress d now cd w) \<and>
      content (state (snd (importProgress d now cd w))) = content (state w))"
proof (intro conjI impI)
  assume "filter_fields d validKeys [] = Inr fd"
  from filter_fields_keys [OF this] show "fst ` set fd \<subseteq> set validKeys" by simp
next
  assume "d = JUndefined \<or> d = JNull"
  then have "filter_fields d validKeys [] = Inl TypeError"
    by (auto simp: validKeys_def)
  then show "importProgress d now cd w = (False, w)"
    by (rule importProgress_error)
next
  assume "d = JObj kvs \<and> ''hasOwnProperty'' \<in> fst ` set kvs"
  then have "filter_fields d validKeys [] = Inl TypeError"
    by (simp add: validKeys_def)
  then show "importProgress d now cd w = (False, w)"
    by (rule importProgress_error)
next
  assume a: "d = JObj kvs \<and> ''hasOwnProperty'' \<notin> fst ` set kvs"
  from importProgress_object [OF conjunct2 [OF a], of now cd w] a
  show "fst (importProgress d now cd w)"
    and "content (state (snd (importProgress d now cd w))) =
        ((case map_of kvs ''province'' of None \<Rightarrow> province (state w) | Some v \<Rightarrow> v),
         (case map_of kvs ''industry'' of None \<Rightarrow> industry (state w) | Some v \<Rightarrow> v),
         (case map_of kvs ''hiring'' of None \<Rightarrow> hiring (state w) | Some v \<Rightarrow> v),
         (case map_of kvs ''revenue'' of None \<Rightarrow> revenue (state w) | Some v \<Rightarrow> v),
         (case map_of kvs ''completed'' of None \<Rightarrow> completed (state w) | Some v \<Rightarrow> v))"
    by simp_all
next
  assume a: "d = JBool b \<or> d = JNum n \<or> d = JStr s"
  from importProgress_primitive [OF a, of now cd w]
  show "fst (importProgress d now cd w)"
    and "content (state (snd (importProgress d now cd w))) = content (state w)"
    by simp_all
qed

text \<open>
  Three payloads: \<open>null\<close> is refused and nothing changes; an object with a province and
  an unknown property \<open>theme\<close> sets the province and leaves industry alone; the number 5
  is accepted.
\<close>

theorem importProgress_known_fields_only_witness:
  "importProgress JNull 300 sample_codec (new_manager 100 True False) =
     (False, new_manager 100 True False) \<and>
   fst (importProgress (JObj [(''province'', JStr ''ON''), (''theme'', JStr ''dark'')])
          300 sample_codec (new_manager 100 True False)) \<and>
   province (state (snd (importProgress
       (JObj [(''province'', JStr ''ON''), (''theme'', JStr ''dark'')])
       300 sample_codec (new_manager 100 True False)))) = JStr ''ON'' \<and>
   industry (state (snd (importProgress
       (JObj [(''province'', JStr ''ON''), (''theme'', JStr ''dark'')])
       300 sample_codec (new_manager 100 True False)))) = JStr ''general'' \<and>
   fst (importProgress (JNum 5) 300 sample_codec (new_manager 100 True False))"
  using importProgress_known_fields_only
    [where d = JNull and now = 300 and cd = sample_codec
       and w = "new_manager 100 True False"]
    importProgress_known_fields_only
    [where d = "JObj [(''province'', JStr ''ON''), (''theme'', JStr ''dark'')]"
       and kvs = "[(''province'', JStr ''ON''), (''theme'', JStr ''dark'')]"
       and now = 300 and cd = sample_codec and w = "new_manager 100 True False"]
    importProgress_known_fields_only
    [where d = "JNum 5" and n = 5 and now = 300 and cd = sample_codec
       and w = "new_manager 100 True False"]
  by (simp add: content_def new_manager_def loadDefaultState_def)

text \<open>The number 5 is a payload that is not an object, and the import reports success.\<close>

theorem importProgress_non_object_counterexample:
  "fst (importProgress (JNum 5) 300 sample_codec (new_manager 100 True False))"
  using importProgress_primitive [where d = "JNum 5" and n = 5] by simp

text \<open>
  C10: importing what \<open>exportProgress\<close> returned succeeds and leaves the five content
  fields as they were; the loop keeps exactly the five content properties of the
  snapshot, so \<open>_exportedAt\<close> and \<open>_version\<close> reach neither the state nor \<open>getState\<close>.
\<close>

theorem export_import_round_trip:
  "fst (importProgress (exportProgress stamp (state w)) now cd w) \<and>
   content (state (snd (importProgress (exportProgress stamp (state w)) now cd w))) =
     content (state w) \<and>
   filter_fields (exportProgress stamp (state w)) validKeys [] = Inr (getState (state w)) \<and>
   map fst (getState (state (snd (importProgress (exportProgress stamp (state w)) now cd w)))) =
     validKeys"
proof -
  have f: "filter_fields (exportProgress stamp (state w)) validKeys [] = Inr (getState (state w))"
    by (simp add: exportProgress_def getState_def validKeys_def get_prop_def)
  have c: "content (with_fields (state w) (getState (state w))) = content (state w)"
    by (simp add: with_fields_def getState_def content_def)
  from importProgress_ok [OF f, of now cd w] c f show ?thesis
    by (simp add: getState_def validKeys_def)
qed

theorem export_import_round_trip_witness:
  "province (state (snd (importProgress
      (exportProgress ''2025-01-01T00:00:00.000Z''
         (state ((new_manager 100 True False)
            \<lparr> state := (loadDefaultState 100)\<lparr> province := JStr ''ON'' \<rparr> \<rparr>)))
      300 sample_codec
      ((new_manager 100 True False)
         \<lparr> state := (loadDefaultState 100)\<lparr> province := JStr ''ON'' \<rparr> \<rparr>)))) = JStr ''ON''"
  using export_import_round_trip
    [where stamp = "''2025-01-01T00:00:00.000Z''"
       and w = "(new_manager 100 True False)
           \<lparr> state := (loadDefaultState 100)\<lparr> province := JStr ''ON'' \<rparr> \<rparr>"
       and now = 300 and cd = sample_codec]
  by (simp add: content_def)

section \<open>Reset\<close>

lemma reset_state [simp]: "state (reset now w) = loadDefaultState now"
  by (simp add: reset_def Let_def)

lemma reset_storage: "storage (reset now w) = removeItems (storage w)"
  by (cases "syncToCloud_begin now
               (w\<lparr> state := loadDefaultState now, storage := removeItems (storage w) \<rparr>)")
    (simp_all add: reset_def Let_def syncToCloud_unawaited_def syncToCloud_begin_fields)

lemma removeItems_cleared:
  "removeItems st ''province'' = None"
  "removeItems st ''industry'' = None"
  "removeItems st ''hiring'' = None"
  "removeItems st ''revenue'' = None"
  "removeItems st ''completed'' = None"
  "removeItems st ''_state_meta'' = None"
  by (simp_all add: removeItems_def)

lemma reset_upserts:
  "upserts (reset now w) =
     (if authenticated w \<and> \<not> syncInProgress w
      then upserts w @ [progressData (loadDefaultState now)] else upserts w)"
  by (simp add: reset_def Let_def syncToCloud_unawaited_def syncToCloud_begin_def)

text \<open>
  The turn in which \<open>reset()\<close> runs, for a signed-in user: the in-memory record takes the
  default values and the six persisted items are removed; when no upload is in flight
  one upsert with the default values is issued, and when one is in flight, none.
\<close>

lemma reset_own_turn:
  assumes "authenticated w"
  shows "content (state (reset now w)) =
           (JStr [], JStr ''general'', JStr ''no'', JStr ''gte30'', JObj []) \<and>
         storage (reset now w) ''province'' = None \<and>
         storage (reset now w) ''industry'' = None \<and>
         storage (reset now w) ''hiring'' = None \<and>
         storage (reset now w) ''revenue'' = None \<and>
         storage (reset now w) ''completed'' = None \<and>
         storage (reset now w) ''_state_meta'' = None \<and>
         (\<not> syncInProgress w \<longrightarrow>
            upserts (reset now w) =
              upserts w @ [[(''province'', JStr []), (''industry'', JStr ''general''),
                            (''hiring'', JStr ''no''), (''revenue'', JStr ''gte30''),
                            (''completed'', JObj [])]]) \<and>
         (syncInProgress w \<longrightarrow> upserts (reset now w) = upserts w)"
  using assms
  by (simp add: reset_storage removeItems_cleared reset_upserts content_def loadDefaultState_def
      progressData_def)

text \<open>
  When an upload that was issued before or by \<open>reset()\<close> succeeds, \<open>syncToCloud\<close> goes on
  to \<open>persistLocal\<close>, which writes the six items again, with the default values.
\<close>

lemma resume_after_reset_rewrites_storage:
  "storage (snd (syncToCloud_resume t cd (Saved u v) (reset now w))) ''province'' = Some []"
  "storage (snd (syncToCloud_resume t cd (Saved u v) (reset now w))) ''industry'' = Some ''general''"
  "storage (snd (syncToCloud_resume t cd (Saved u v) (reset now w))) ''hiring'' = Some ''no''"
  "storage (snd (syncToCloud_resume t cd (Saved u v) (reset now w))) ''revenue'' = Some ''gte30''"
  "storage (snd (syncToCloud_resume t cd (Saved u v) (reset now w))) ''completed'' =
     Some (stringify cd (JObj []))"
  "storage (snd (syncToCloud_resume t cd (Saved u v) (reset now w))) ''_state_meta'' =
     Some (stringify_meta cd \<lparr> lastModified = t, version = v, syncedAt = Some t,
                               hasLocalChanges = True \<rparr>)"
  by (simp_all add: syncToCloud_resume_def Let_def persistLocal_def loadDefaultState_def
      item_text_def)

text \<open>The run of \<open>reset_in_flight\<close> and \<open>reset_settled\<close>.\<close>

lemma reset_in_flight_eval:
  "content (state reset_in_flight) =
     (JStr [], JStr ''general'', JStr ''no'', JStr ''gte30'', JObj [])"
  "storage reset_in_flight ''province'' = None"
  "upserts reset_in_flight =
     [[(''province'', JStr ''ON''), (''industry'', JStr ''general''), (''hiring'', JStr ''no''),
       (''revenue'', JStr ''gte30''), (''completed'', JObj [])]]"
  "syncInProgress reset_in_flight"
  "authenticated reset_in_flight"
  "timers reset_in_flight = []"
  by (simp_all add: reset_in_flight_def reset_upserts reset_storage removeItems_cleared
      content_def new_manager_def syncToCloud_unawaited_def syncToCloud_begin_def
      progressData_def loadDefaultState_def reset_def Let_def)

lemma reset_settled_eval:
  "content (state reset_settled) =
     (JStr [], JStr ''general'', JStr ''no'', JStr ''gte30'', JObj [])"
  "storage reset_settled ''province'' = Some []"
  "storage reset_settled ''industry'' = Some ''general''"
  "storage reset_settled ''hiring'' = Some ''no''"
  "storage reset_settled ''revenue'' = Some ''gte30''"
  "storage reset_settled ''completed'' = Some ''{}''"
  "storage reset_settled ''_state_meta'' = Some ''meta''"
  "upserts reset_settled = upserts reset_in_flight"
  "\<not> pendingChanges reset_settled"
  "\<not> syncInProgress reset_settled"
  "authenticated reset_settled"
  "timers reset_settled = [(1, 2400, SyncCallback)]"
  by (simp_all add: reset_settled_def reset_in_flight_def reset_def Let_def
      syncToCloud_unawaited_def syncToCloud_begin_def syncToCloud_resume_def
      persistLocal_def scheduleSyncToCloud_def setTimeout_def clearSyncTimeout_def
      new_manager_def loadDefaultState_def content_def sample_codec_def item_text_def
      removeItems_def)

lemma reset_settled_run:
  "run_timers 3 sample_codec (Saved 2400 3) reset_settled =
     reset_settled\<lparr> timers := [] \<rparr>"
  using reset_settled_eval(9-12)
  by (simp add: eval_nat_numeral next_timer_def fire_timer_def sync_callback_def
      clearTimeout_def Let_def)

text \<open>
  C9 (the code at the failing input): a signed-in user calls \<open>reset()\<close> while the upload
  of the province \<open>'ON'\<close> is in flight. The comment in \<open>reset\<close> says that for an
  authenticated user the cloud data is cleared as well. The record in memory takes the
  default values and the persisted items are removed, but the guard of \<open>syncToCloud\<close>
  returns before any request: the upload of \<open>'ON'\<close> stays the only request. After it has
  succeeded and every timer has run, still no upsert carries the default values,
  nothing is pending any more, and the persisted items have been written again.
\<close>

theorem reset_during_upload_keeps_cloud_data:
  "authenticated reset_in_flight \<and> syncInProgress reset_in_flight \<and>
   content (state reset_in_flight) =
     (JStr [], JStr ''general'', JStr ''no'', JStr ''gte30'', JObj []) \<and>
   storage reset_in_flight ''province'' = None \<and>
   upserts reset_in_flight =
     [[(''province'', JStr ''ON''), (''industry'', JStr ''general''), (''hiring'', JStr ''no''),
       (''revenue'', JStr ''gte30''), (''completed'', JObj [])]] \<and>
   upserts (run_timers 3 sample_codec (Saved 2400 3) reset_settled) =
     [[(''province'', JStr ''ON''), (''industry'', JStr ''general''), (''hiring'', JStr ''no''),
       (''revenue'', JStr ''gte30''), (''completed'', JObj [])]] \<and>
   timers (run_timers 3 sample_codec (Saved 2400 3) reset_settled) = [] \<and>
   \<not> pendingChanges (run_timers 3 sample_codec (Saved 2400 3) reset_settled) \<and>
   content (state (run_timers 3 sample_codec (Saved 2400 3) reset_settled)) =
     (JStr [], JStr ''general'', JStr ''no'', JStr ''gte30'', JObj []) \<and>
   storage reset_settled ''province'' = Some [] \<and>
   storage reset_settled ''industry'' = Some ''general'' \<and>
   storage reset_settled ''_state_meta'' = Some ''meta''"
  using reset_in_flight_eval reset_settled_eval
  by (simp add: reset_settled_run)

text \<open>No request of that run carries the default, empty province.\<close>

theorem reset_during_upload_keeps_cloud_data_witness:
  "\<not> list_ex (\<lambda>row. map_of row ''province'' = Some (JStr []))
       (upserts (run_timers 3 sample_codec (Saved 2400 3) reset_settled))"
  using reset_during_upload_keeps_cloud_data by simp

section \<open>The debounced upload\<close>







lemma timers_ok_state_update [simp]: "timers_ok (w\<lparr> state := s \<rparr>) = timers_ok w"
  by (simp add: timers_ok_def)


lemma find_timer:
  assumes "distinct (map fst ts)" and "(h, due, cb) \<in> set ts"
  shows "find (\<lambda>(h', due', cb'). h' = h \<and> due' \<le> t) ts =
           (if due \<le> t then Some (h, due, cb) else None)"
  using assms
proof (induction ts)
  case Nil
  then show ?case by simp
next
  case (Cons x ts)
  obtain h' due' cb' where x: "x = (h', due', cb')" by (cases x)
  show ?case
  proof (cases "h' = h")
    case True
    with Cons.prems x have "(h, due, cb) \<notin> set ts"
      by (force simp: image_iff)
    with Cons.prems x True have same: "due' = due" "cb' = cb" by auto
    have "h \<notin> fst ` set ts" using Cons.prems x True by simp
    then have "find (\<lambda>(h', due', cb'). h' = h \<and> due' \<le> t) ts = None"
      by (force simp: find_None_iff image_iff)
    with x True same show ?thesis by simp
  next
    case False
    with Cons x show ?thesis by auto
  qed
qed











text \<open>The run of \<open>changed_in_flight\<close>.\<close>

lemma changed_in_flight_eval:
  "province (state changed_in_flight) = JStr ''BC''"
  "upserts changed_in_flight =
     [[(''province'', JStr ''ON''), (''industry'', JStr ''general''), (''hiring'', JStr ''no''),
       (''revenue'', JStr ''gte30''), (''completed'', JObj [])]]"
  "\<not> pendingChanges changed_in_flight"
  "\<not> syncInProgress changed_in_flight"
  "authenticated changed_in_flight"
  "timers changed_in_flight = [(2, 2400, SyncCallback)]"
  by (simp_all add: changed_in_flight_def setProvince_def Let_def
      syncToCloud_unawaited_def syncToCloud_begin_def syncToCloud_resume_def
      persistLocal_def scheduleSyncToCloud_def setTimeout_def clearSyncTimeout_def
      clearTimeout_def new_manager_def loadDefaultState_def progressData_def)

text \<open>
  A change made while an upload is in flight is outside the property above, and it is
  not uploaded: when the upload in flight succeeds, \<open>syncToCloud\<close> sets \<open>pendingChanges\<close> to
  \<open>false\<close>, so the timer that the change scheduled finds nothing to send. After every
  timer has run, the record holds \<open>'BC'\<close> and the only request made carried \<open>'ON'\<close>.
\<close>

lemma change_during_upload_is_not_uploaded:
  "province (state (run_timers 3 sample_codec (Saved 2400 3) changed_in_flight)) = JStr ''BC'' \<and>
   upserts (run_timers 3 sample_codec (Saved 2400 3) changed_in_flight) =
     [[(''province'', JStr ''ON''), (''industry'', JStr ''general''), (''hiring'', JStr ''no''),
       (''revenue'', JStr ''gte30''), (''completed'', JObj [])]] \<and>
   timers (run_timers 3 sample_codec (Saved 2400 3) changed_in_flight) = [] \<and>
   \<not> pendingChanges (run_timers 3 sample_codec (Saved 2400 3) changed_in_flight)"
proof -
  have "run_timers 3 sample_codec (Saved 2400 3) changed_in_flight =
          changed_in_flight\<lparr> timers := [] \<rparr>"
    using changed_in_flight_eval(3-6)
    by (simp add: eval_nat_numeral next_timer_def fire_timer_def sync_callback_def
        clearTimeout_def Let_def)
  then show ?thesis
    using changed_in_flight_eval by simp
qed

section \<open>Retries after a failed upload\<close>

subsection \<open>The retry queue\<close>

text \<open>
  \<open>queueRetrySync\<close> queues a retry only while the counter is below \<open>maxRetries\<close>; the
  retry that brings the counter to \<open>n\<close> is due \<open>n\<close> times 5000 ms later.
\<close>

lemma queueRetrySync_rule:
  "retry_timers (queueRetrySync now w) =
     (if retryAttempts w < maxRetries
      then retry_timers w @ [(Suc (lastHandle w), now + 5000 * (int (retryAttempts w) + 1), RetryCallback)]
      else retry_timers w)"
  "sync_timers (queueRetrySync now w) = sync_timers w"
  "retryAttempts (queueRetrySync now w) =
     (if retryAttempts w < maxRetries then Suc (retryAttempts w) else retryAttempts w)"
  by (simp_all add: queueRetrySync_def setTimeout_def Let_def retry_timers_def sync_timers_def
      retryDelay_def)

text \<open>
  The bookkeeping \<open>queue_capped\<close> holds for a new manager and is kept by every sync
  event, whichever handler is in place.
\<close>

lemma queue_capped_new_manager: "queue_capped (new_manager now online auth)"
  by (simp add: queue_capped_def retry_timers_def new_manager_def)

lemma queue_capped_queueRetrySync: "queue_capped w \<Longrightarrow> queue_capped (queueRetrySync now w)"
  by (auto simp: queue_capped_def queueRetrySync_rule)

lemma queue_capped_events:
  assumes "queue_capped w"
  shows "queue_capped (handleSyncEvent st now w)"
    and "queue_capped (notifySyncListeners st now w)"
    and "queue_capped (setSyncStatus st now w)"
proof -
  show "queue_capped (handleSyncEvent st now w)"
    using assms by (simp add: handleSyncEvent_def queue_capped_queueRetrySync)
  then show "queue_capped (notifySyncListeners st now w)"
    using assms by (simp add: notifySyncListeners_def)
  have "queue_capped (w\<lparr> currentSyncStatus := Some st \<rparr>)"
    using assms by (simp add: queue_capped_def retry_timers_def)
  then show "queue_capped (setSyncStatus st now w)"
    by (auto simp: setSyncStatus_def notifySyncListeners_def handleSyncEvent_def
        queue_capped_queueRetrySync)
qed

lemma retry_timers_clearTimeout:
  "retry_timers (clearTimeout h w) = filter (\<lambda>(h', due, cb). h' \<noteq> h) (retry_timers w)"
  "sync_timers (clearTimeout h w) = filter (\<lambda>(h', due, cb). h' \<noteq> h) (sync_timers w)"
  by (auto simp: clearTimeout_def retry_timers_def sync_timers_def intro: filter_cong)

lemma retry_timers_clearSyncTimeout:
  "length (retry_timers (clearSyncTimeout w)) \<le> length (retry_timers w)"
  "retryAttempts (clearSyncTimeout w) = retryAttempts w"
  by (simp_all add: clearSyncTimeout_def retry_timers_clearTimeout split: option.splits)

lemma retry_timers_schedule:
  "retry_timers (scheduleSyncToCloud d now w) = retry_timers (clearSyncTimeout w)"
  "retry_timers (persistLocal now cd w) = retry_timers (clearSyncTimeout w)"
  by (simp_all add: retry_timers_def)

lemma retry_timers_state_update [simp]:
  "retry_timers (w\<lparr> state := s \<rparr>) = retry_timers w"
  "retry_timers (w\<lparr> syncInProgress := b \<rparr>) = retry_timers w"
  "retry_timers (w\<lparr> upserts := u \<rparr>) = retry_timers w"
  "retry_timers (w\<lparr> currentSyncStatus := c \<rparr>) = retry_timers w"
  "retry_timers (w\<lparr> lastSyncTime := l \<rparr>) = retry_timers w"
  "retry_timers (w\<lparr> pendingChanges := b \<rparr>) = retry_timers w"
  "retry_timers (w\<lparr> retryAttempts := n \<rparr>) = retry_timers w"
  "retry_timers (w\<lparr> handlerReplaced := b \<rparr>) = retry_timers w"
  by (simp_all add: retry_timers_def)

subsection \<open>Once the application's handler is in place\<close>

text \<open>With the application's handler in place no operation queues a retry.\<close>

lemma replaced_events [simp]:
  "handlerReplaced w \<Longrightarrow> notifySyncListeners st now w = w"
  "handlerReplaced w \<Longrightarrow> setSyncStatus st now w = w\<lparr> currentSyncStatus := Some st \<rparr>"
  by (simp_all add: notifySyncListeners_def setSyncStatus_def)

lemma replaced_persistLocal:
  "length (retry_timers (persistLocal now cd w)) \<le> length (retry_timers w)"
  by (simp add: retry_timers_schedule retry_timers_clearSyncTimeout)

lemma replaced_syncToCloud:
  assumes "handlerReplaced w"
  shows "handlerReplaced (snd (syncToCloud now cd out w))"
    and "length (retry_timers (snd (syncToCloud now cd out w))) \<le> length (retry_timers w)"
    and "timers (snd (syncToCloud now cd SaveFailed w)) = timers w"
    and "length (upserts (snd (syncToCloud now cd out w))) \<le> Suc (length (upserts w))"
    and "currentSyncStatus (snd (syncToCloud now cd SaveFailed w)) =
           (if authenticated w \<and> \<not> syncInProgress w then Some SyncFailed
            else currentSyncStatus w)"
proof -
  show "handlerReplaced (snd (syncToCloud now cd out w))"
    using assms by (simp add: syncToCloud_cases syncToCloud_resume_def Let_def
        split: save_outcome.splits)
  show "length (retry_timers (snd (syncToCloud now cd out w))) \<le> length (retry_timers w)"
    using assms replaced_persistLocal
    by (simp add: syncToCloud_cases syncToCloud_resume_def Let_def split: save_outcome.splits)
      (metis retry_timers_state_update)
  show "timers (snd (syncToCloud now cd SaveFailed w)) = timers w"
    using assms by (simp add: syncToCloud_cases syncToCloud_resume_def Let_def)
  show "length (upserts (snd (syncToCloud now cd out w))) \<le> Suc (length (upserts w))"
    by simp
  show "currentSyncStatus (snd (syncToCloud now cd SaveFailed w)) =
           (if authenticated w \<and> \<not> syncInProgress w then Some SyncFailed
            else currentSyncStatus w)"
    using assms by (simp add: syncToCloud_cases syncToCloud_resume_def Let_def)
qed


lemma length_timers_clearSyncTimeout:
  "length (timers (clearSyncTimeout w)) \<le> length (timers w)"
  by (simp add: clearSyncTimeout_def clearTimeout_def split: option.splits)

lemma replaced_forceSyncToCloud:
  assumes "handlerReplaced w"
  shows "handlerReplaced (snd (forceSyncToCloud now cd out w))"
    and "length (timers (snd (forceSyncToCloud now cd SaveFailed w))) \<le> length (timers w)"
    and "length (upserts (snd (forceSyncToCloud now cd out w))) \<le> Suc (length (upserts w))"
    and "currentSyncStatus w = Some SyncFailed \<Longrightarrow>
           currentSyncStatus (snd (forceSyncToCloud now cd SaveFailed w)) = Some SyncFailed"
proof -
  have r: "handlerReplaced (clearSyncTimeout w)" using assms by simp
  show "handlerReplaced (snd (forceSyncToCloud now cd out w))"
    using replaced_syncToCloud(1) [OF r] by (simp add: forceSyncToCloud_def)
  show "length (timers (snd (forceSyncToCloud now cd SaveFailed w))) \<le> length (timers w)"
    using replaced_syncToCloud(3) [OF r] length_timers_clearSyncTimeout [of w]
    by (simp add: forceSyncToCloud_def)
  show "length (upserts (snd (forceSyncToCloud now cd out w))) \<le> Suc (length (upserts w))"
    by simp
  show "currentSyncStatus w = Some SyncFailed \<Longrightarrow>
          currentSyncStatus (snd (forceSyncToCloud now cd SaveFailed w)) = Some SyncFailed"
    using replaced_syncToCloud(5) [OF r] by (simp add: forceSyncToCloud_def)
qed





subsection \<open>Start-up\<close>

text \<open>
  Between \<open>SyncManager.initialize\<close> and the set-up of the application the handler of
  \<open>SyncManager\<close> is in place. The uploads and the sync-down that run then keep
  \<open>queue_capped\<close>, so that at most \<open>maxRetries\<close> retries are pending when the application
  replaces the handler.
\<close>

lemma queue_capped_mono:
  "queue_capped w \<Longrightarrow> length (retry_timers w') \<le> length (retry_timers w) \<Longrightarrow>
     retryAttempts w' = retryAttempts w \<Longrightarrow> queue_capped w'"
  by (simp add: queue_capped_def)

lemma queue_capped_persistLocal:
  "queue_capped w \<Longrightarrow> queue_capped (persistLocal now cd w)"
  by (rule queue_capped_mono [where w = w]) (simp_all add: replaced_persistLocal)

lemma queue_capped_syncToCloud:
  assumes "queue_capped w"
  shows "queue_capped (snd (syncToCloud now cd out w))"
proof (cases "\<not> authenticated w \<or> syncInProgress w")
  case True
  with assms show ?thesis by (simp add: syncToCloud_cases)
next
  case False
  let ?w1 = "(setSyncStatus Syncing now (w\<lparr> syncInProgress := True \<rparr>))
               \<lparr> upserts := upserts w @ [progressData (state w)] \<rparr>"
  have "queue_capped (w\<lparr> syncInProgress := True \<rparr>)"
    using assms by (simp add: queue_capped_def)
  then have "queue_capped (setSyncStatus Syncing now (w\<lparr> syncInProgress := True \<rparr>))"
    by (rule queue_capped_events(3))
  then have q1: "queue_capped ?w1"
    by (simp add: queue_capped_def)
  have "queue_capped (snd (syncToCloud_resume now cd out ?w1))"
  proof (cases out)
    case SaveFailed
    have "queue_capped (setSyncStatus SyncFailed now ?w1)"
      by (rule queue_capped_events(3) [OF q1])
    then have "queue_capped (notifySyncListeners SyncFailed now (setSyncStatus SyncFailed now ?w1))"
      by (rule queue_capped_events(2))
    then show ?thesis
      by (simp add: syncToCloud_resume_def Let_def SaveFailed queue_capped_def)
  next
    case (Saved u v)
    let ?w2 = "?w1\<lparr> state := (state ?w1)\<lparr> meta :=
                 \<lparr> lastModified = u, version = v, syncedAt = Some now,
                   hasLocalChanges = False \<rparr> \<rparr> \<rparr>"
    have "queue_capped ?w2" using q1 by (simp add: queue_capped_def)
    then have "queue_capped (persistLocal now cd ?w2)"
      by (rule queue_capped_persistLocal)
    then show ?thesis
      by (simp add: syncToCloud_resume_def Let_def Saved queue_capped_def)
  qed
  with False show ?thesis by (simp add: syncToCloud_cases)
qed

lemma queue_capped_forceSyncToCloud:
  assumes "queue_capped w"
  shows "queue_capped (snd (forceSyncToCloud now cd out w))"
proof -
  have "queue_capped (clearSyncTimeout w)"
    by (rule queue_capped_mono [OF assms]) (simp_all add: retry_timers_clearSyncTimeout)
  then show ?thesis
    by (simp add: forceSyncToCloud_def queue_capped_syncToCloud)
qed

lemma queue_capped_syncFromCloud:
  assumes "queue_capped w"
  shows "queue_capped (snd (syncFromCloud now cd fetched out w))"
proof (cases "authenticated w")
  case False
  with assms show ?thesis by (simp add: syncFromCloud_def)
next
  case True
  let ?w0 = "setSyncStatus Syncing now w"
  have q0: "queue_capped ?w0" by (rule queue_capped_events(3) [OF assms])
  have fin: "\<And>w1. queue_capped w1 \<Longrightarrow>
               queue_capped (setSyncStatus Synced now (w1\<lparr> lastSyncTime := Some now \<rparr>))"
  proof -
    fix w1 assume "queue_capped w1"
    then have "queue_capped (w1\<lparr> lastSyncTime := Some now \<rparr>)" by (simp add: queue_capped_def)
    then show "queue_capped (setSyncStatus Synced now (w1\<lparr> lastSyncTime := Some now \<rparr>))"
      by (rule queue_capped_events(3))
  qed
  show ?thesis
  proof (cases fetched)
    case FetchFailed
    with True queue_capped_events(3) [OF q0] show ?thesis
      by (simp add: syncFromCloud_def Let_def)
  next
    case NoRow
    show ?thesis
    proof (cases "hasProgressData (state ?w0)")
      case (Inl e)
      with True NoRow queue_capped_events(3) [OF q0] show ?thesis
        by (simp add: syncFromCloud_def Let_def)
    next
      case (Inr has)
      have "queue_capped (if has then snd (syncToCloud now cd out ?w0) else ?w0)"
        using q0 by (simp add: queue_capped_syncToCloud)
      from fin [OF this] True NoRow Inr show ?thesis
        by (cases has) (simp_all add: syncFromCloud_def Let_def)
    qed
  next
    case (Row r)
    let ?wa = "persistLocal now cd (?w0\<lparr> state := cloud_state now r \<rparr>)"
    have "queue_capped (?w0\<lparr> state := cloud_state now r \<rparr>)"
      using q0 by (simp add: queue_capped_def)
    then have "queue_capped ?wa" by (rule queue_capped_persistLocal)
    then have "queue_capped (clear_local_changes ?wa)"
      by (simp add: queue_capped_def clear_local_changes_def)
    then have "queue_capped (notifySyncListeners Synced now (clear_local_changes ?wa))"
      by (rule queue_capped_events(2))
    with q0 have "queue_capped
        (if updated_at r > lastModified (meta (state ?w0)) \<or>
            \<not> time_set (syncedAt (meta (state ?w0)))
         then notifySyncListeners Synced now (clear_local_changes ?wa) else ?w0)"
      by simp
    from fin [OF this] True Row show ?thesis
      by (auto simp: syncFromCloud_def Let_def split: if_splits)
  qed
qed

lemma retries_capped_setupEventListeners:
  "queue_capped w \<Longrightarrow> retries_capped (setupEventListeners w)"
  by (simp add: queue_capped_def retries_capped_def retry_timers_def)

subsection \<open>After set-up\<close>

text \<open>After set-up the number of pending retry timers never grows.\<close>

lemma replaced_forceSyncToCloud_any:
  assumes "handlerReplaced w"
  shows "length (retry_timers (snd (forceSyncToCloud now cd out w))) \<le> length (retry_timers w)"
proof -
  have r: "handlerReplaced (clearSyncTimeout w)" using assms by simp
  from replaced_syncToCloud(2) [OF r, of now cd out] retry_timers_clearSyncTimeout(1) [of w]
  show ?thesis by (simp add: forceSyncToCloud_def)
qed

lemma replaced_fire_timer_any:
  assumes "handlerReplaced w"
  shows "handlerReplaced (fire_timer h t cd out w)"
    and "length (retry_timers (fire_timer h t cd out w)) \<le> length (retry_timers w)"
proof -
  let ?w1 = "clearTimeout h w"
  have r1: "handlerReplaced ?w1" using assms by simp
  have l1: "length (retry_timers ?w1) \<le> length (retry_timers w)"
    by (simp add: retry_timers_clearTimeout)
  have s1: "handlerReplaced (sync_callback t cd out ?w1)"
    using replaced_syncToCloud(1) [OF r1] r1 by (simp add: sync_callback_def)
  have s2: "length (retry_timers (sync_callback t cd out ?w1)) \<le> length (retry_timers ?w1)"
    using replaced_syncToCloud(2) [OF r1] by (simp add: sync_callback_def)
  have c1: "handlerReplaced (retry_callback t cd out ?w1)"
    using replaced_forceSyncToCloud(1) [OF r1, of t cd out]
    by (simp add: retry_callback_def split_beta)
  have c2: "length (retry_timers (retry_callback t cd out ?w1)) \<le> length (retry_timers ?w1)"
    using replaced_forceSyncToCloud_any [OF r1, of t cd out]
    by (simp add: retry_callback_def split_beta)
  note s3 = le_trans [OF s2 l1] and c3 = le_trans [OF c2 l1]
  show "handlerReplaced (fire_timer h t cd out w)"
    using assms s1 c1
    by (simp add: fire_timer_def Let_def split: option.splits callback.splits)
  show "length (retry_timers (fire_timer h t cd out w)) \<le> length (retry_timers w)"
    using s3 c3
    by (simp add: fire_timer_def Let_def split: option.splits callback.splits)
qed

lemma retry_timers_scheduleSyncToCloud_le:
  "length (retry_timers (scheduleSyncToCloud d now w)) \<le> length (retry_timers w)"
  unfolding retry_timers_schedule(1) by (rule retry_timers_clearSyncTimeout(1))

lemma replaced_mutate:
  assumes "handlerReplaced w" and "mutate m now cd w = Inr w1"
  shows "handlerReplaced w1"
    and "length (retry_timers w1) \<le> length (retry_timers w)"
proof -
  have p: "\<And>w0. handlerReplaced w0 \<Longrightarrow> retry_timers w0 = retry_timers w \<Longrightarrow>
             handlerReplaced (persistLocal now cd w0) \<and>
             length (retry_timers (persistLocal now cd w0)) \<le> length (retry_timers w)"
  proof -
    fix w0 assume a: "handlerReplaced w0" "retry_timers w0 = retry_timers w"
    from replaced_persistLocal [of now cd w0] a
    show "handlerReplaced (persistLocal now cd w0) \<and>
          length (retry_timers (persistLocal now cd w0)) \<le> length (retry_timers w)"
      by simp
  qed
  have "handlerReplaced w1 \<and> length (retry_timers w1) \<le> length (retry_timers w)"
  proof (cases m)
    case (SetProvince v)
    with assms p [of "w\<lparr> state := (state w)\<lparr> province := v \<rparr> \<rparr>"] show ?thesis
      by (simp add: setProvince_def)
  next
    case (SetIndustry v)
    with assms p [of "w\<lparr> state := (state w)\<lparr> industry := v \<rparr> \<rparr>"] show ?thesis
      by (simp add: setIndustry_def)
  next
    case (SetHiring v)
    with assms p [of "w\<lparr> state := (state w)\<lparr> hiring := v \<rparr> \<rparr>"] show ?thesis
      by (simp add: setHiring_def)
  next
    case (SetRevenue v)
    with assms p [of "w\<lparr> state := (state w)\<lparr> revenue := v \<rparr> \<rparr>"] show ?thesis
      by (simp add: setRevenue_def)
  next
    case (SetStepCompleted key c)
    with assms(2) obtain kvs where kvs: "completed (state w) = JObj kvs"
      by (cases "completed (state w)") (simp_all add: setStepCompleted_def)
    let ?w0 = "w\<lparr> state := (state w)\<lparr> completed := JObj (AList.update key (JBool c) kvs) \<rparr> \<rparr>"
    note q = p [of ?w0]
    have "length (retry_timers (scheduleSyncToCloud 500 now (persistLocal now cd ?w0))) \<le>
            length (retry_timers (persistLocal now cd ?w0))"
      by (rule retry_timers_scheduleSyncToCloud_le)
    moreover from q assms(1)
    have "handlerReplaced (persistLocal now cd ?w0)"
      and "length (retry_timers (persistLocal now cd ?w0)) \<le> length (retry_timers w)"
      by simp_all
    ultimately
    have "length (retry_timers (scheduleSyncToCloud 500 now (persistLocal now cd ?w0))) \<le>
            length (retry_timers w)"
      and "handlerReplaced (scheduleSyncToCloud 500 now (persistLocal now cd ?w0))"
      and "handlerReplaced (persistLocal now cd ?w0)"
      and "length (retry_timers (persistLocal now cd ?w0)) \<le> length (retry_timers w)"
      by simp_all
    with assms(2) SetStepCompleted kvs show ?thesis
      by (cases "c \<and> authenticated w") (auto simp: setStepCompleted_def Let_def)
  qed
  then show "handlerReplaced w1" and "length (retry_timers w1) \<le> length (retry_timers w)"
    by simp_all
qed

subsection \<open>The bound on automatic retries\<close>




subsection \<open>The handler of \<open>SyncManager\<close> itself\<close>

text \<open>
  What follows is about \<open>SyncManager.handleSyncEvent\<close> as long as it is still in place,
  that is before the application is set up. Every failed upload emits two \<open>error\<close>
  events, each of which reaches \<open>queueRetrySync\<close>, also when the failing upload is itself
  a retry; and the retry closure sets the counter back to 0 once it has reached
  \<open>maxRetries\<close>. Left to this handler, retries of a persistently failing upload would
  not stop.
\<close>

lemma fold_earlier_mem:
  "fold (\<lambda>t' best. if fst (snd t') < fst (snd best) then t' else best) ts t \<in> set (t # ts)"
  by (induction ts arbitrary: t) (auto split: if_splits)

lemma next_timer_mem:
  assumes "timers w \<noteq> []"
  shows "\<exists>t. next_timer w = Some t \<and> t \<in> set (timers w)"
proof (cases "timers w")
  case Nil
  with assms show ?thesis by simp
next
  case (Cons t ts)
  have "fold (\<lambda>t' best. if fst (snd t') < fst (snd best) then t' else best) ts t \<in> set (t # ts)"
    by (rule fold_earlier_mem)
  with Cons show ?thesis by (simp add: next_timer_def)
qed

text \<open>One failing upload, from a manager with nothing in flight and no upload timer.\<close>

lemma failed_upload:
  assumes "authenticated w" and "isOnline w" and "\<not> syncInProgress w" and "syncTimeout w = None"
    and "\<not> handlerReplaced w"
  shows "upserts (snd (forceSyncToCloud now cd SaveFailed w)) = upserts w @ [progressData (state w)]"
    and "\<not> fst (forceSyncToCloud now cd SaveFailed w)"
    and "authenticated (snd (forceSyncToCloud now cd SaveFailed w))"
    and "isOnline (snd (forceSyncToCloud now cd SaveFailed w))"
    and "\<not> syncInProgress (snd (forceSyncToCloud now cd SaveFailed w))"
    and "syncTimeout (snd (forceSyncToCloud now cd SaveFailed w)) = None"
    and "\<not> handlerReplaced (snd (forceSyncToCloud now cd SaveFailed w))"
    and "retryAttempts w = 0 \<Longrightarrow>
           retryAttempts (snd (forceSyncToCloud now cd SaveFailed w)) = 2 \<and>
           lastHandle (snd (forceSyncToCloud now cd SaveFailed w)) = Suc (Suc (lastHandle w)) \<and>
           timers (snd (forceSyncToCloud now cd SaveFailed w)) =
             timers w @ [(Suc (lastHandle w), now + 5000, RetryCallback),
                         (Suc (Suc (lastHandle w)), now + 10000, RetryCallback)]"
    and "retryAttempts w = 2 \<Longrightarrow>
           retryAttempts (snd (forceSyncToCloud now cd SaveFailed w)) = 3 \<and>
           lastHandle (snd (forceSyncToCloud now cd SaveFailed w)) = Suc (lastHandle w) \<and>
           timers (snd (forceSyncToCloud now cd SaveFailed w)) =
             timers w @ [(Suc (lastHandle w), now + 15000, RetryCallback)]"
  using assms
  by (simp_all add: forceSyncToCloud_def clearSyncTimeout_def syncToCloud_cases
      syncToCloud_resume_def setSyncStatus_def notifySyncListeners_def handleSyncEvent_def
      queueRetrySync_def setTimeout_def maxRetries_def retryDelay_def Let_def)

text \<open>
  A retry timer that fires into another failure issues a request and leaves the manager
  in the same situation: the failure queues new retries before the counter is looked
  at, and a counter that has reached the maximum is set back to 0.
\<close>

lemma retry_step:
  assumes "retrying w" and "(h, due, cb) \<in> set (timers w)"
  shows "retrying (fire_timer h due cd SaveFailed w)"
    and "upserts (fire_timer h due cd SaveFailed w) = upserts w @ [progressData (state w)]"
proof -
  from assms(1) have d: "distinct (map fst (timers w))"
    and la: "list_all (\<lambda>(h, due, cb). h \<le> lastHandle w \<and> cb = RetryCallback) (timers w)"
    and r: "retryAttempts w = 0 \<or> retryAttempts w = 2"
    by (simp_all add: retrying_def)
  from la assms(2) have cb: "cb = RetryCallback"
    by (auto simp: list_all_iff)
  let ?w1 = "clearTimeout h w"
  have f: "fire_timer h due cd SaveFailed w = retry_callback due cd SaveFailed ?w1"
    unfolding fire_timer_def find_timer [OF d assms(2), of due] by (simp add: cb)
  have w1: "authenticated ?w1" "isOnline ?w1" "\<not> syncInProgress ?w1" "syncTimeout ?w1 = None"
    "\<not> handlerReplaced ?w1"
    using assms(1) by (simp_all add: retrying_def)
  note u = failed_upload [OF w1, of due cd]
  let ?w2 = "snd (forceSyncToCloud due cd SaveFailed ?w1)"
  have old: "\<forall>t \<in> set (timers ?w1). case t of (h, due, cb) \<Rightarrow> h \<le> lastHandle w \<and> cb = RetryCallback"
    using la by (auto simp: list_all_iff)
  have d1: "distinct (map fst (timers ?w1))"
    using d by (simp add: distinct_map_filter)
  have fresh: "\<And>k. lastHandle w < k \<Longrightarrow> k \<notin> fst ` set (timers ?w1)"
    using old by fastforce
  show "upserts (fire_timer h due cd SaveFailed w) = upserts w @ [progressData (state w)]"
    using u(1) u(2) by (simp add: f retry_callback_def split_beta)
  from r show "retrying (fire_timer h due cd SaveFailed w)"
  proof
    assume r0: "retryAttempts w = 0"
    then have "retryAttempts ?w1 = 0" by simp
    note n = u(8) [OF this]
    have c: "retry_callback due cd SaveFailed ?w1 = ?w2"
      using n u(2) by (simp add: retry_callback_def split_beta maxRetries_def)
    have "distinct (map fst (timers ?w2))"
      using n d1 fresh [of "Suc (lastHandle w)"] fresh [of "Suc (Suc (lastHandle w))"] by simp
    moreover have "list_all (\<lambda>(h, due, cb). h \<le> lastHandle ?w2 \<and> cb = RetryCallback) (timers ?w2)"
      using n old by (fastforce simp: list_all_iff)
    ultimately show ?thesis
      using u(3-7) n by (simp add: f c retrying_def)
  next
    assume r2: "retryAttempts w = 2"
    then have "retryAttempts ?w1 = 2" by simp
    note n = u(9) [OF this]
    have c: "retry_callback due cd SaveFailed ?w1 = ?w2\<lparr> retryAttempts := 0 \<rparr>"
      using n u(2) by (simp add: retry_callback_def split_beta maxRetries_def)
    have "distinct (map fst (timers ?w2))"
      using n d1 fresh [of "Suc (lastHandle w)"] by simp
    moreover have "list_all (\<lambda>(h, due, cb). h \<le> lastHandle ?w2 \<and> cb = RetryCallback) (timers ?w2)"
      using n old by (fastforce simp: list_all_iff)
    ultimately show ?thesis
      using u(3-7) n by (simp add: f c retrying_def)
  qed
qed

lemma run_retrying:
  "retrying w \<Longrightarrow>
     retrying (run_timers n cd SaveFailed w) \<and>
     length (upserts (run_timers n cd SaveFailed w)) = length (upserts w) + n"
proof (induction n arbitrary: w)
  case 0
  then show ?case by simp
next
  case (Suc n)
  from Suc.prems have "timers w \<noteq> []" by (simp add: retrying_def)
  from next_timer_mem [OF this]
  obtain h due cb where nt: "next_timer w = Some (h, due, cb)" and m: "(h, due, cb) \<in> set (timers w)"
    by (metis prod_cases3)
  note s = retry_step [OF Suc.prems m, of cd]
  from Suc.IH [OF s(1)] show ?case
    by (simp add: nt s(2))
qed

lemma retrying_after_first_failure:
  "retrying (snd (syncToCloud now cd SaveFailed (new_manager now True True)))"
  "length (upserts (snd (syncToCloud now cd SaveFailed (new_manager now True True)))) = 1"
  by (simp_all add: retrying_def new_manager_def syncToCloud_cases
      syncToCloud_resume_def setSyncStatus_def notifySyncListeners_def handleSyncEvent_def
      queueRetrySync_def setTimeout_def maxRetries_def retryDelay_def Let_def)

text \<open>
  Under \<open>SyncManager\<close>'s own handler, after a first failure of a signed-in, online
  user's upload, the \<open>n\<close>-th timer to run issues the \<open>n\<close>-th retry for every \<open>n\<close>, and retry
  timers are still pending afterwards.
\<close>

lemma own_handler_keeps_retrying:
  "length (upserts (run_timers n cd SaveFailed
      (snd (syncToCloud now cd SaveFailed (new_manager now True True))))) = Suc n \<and>
   retry_timers (run_timers n cd SaveFailed
      (snd (syncToCloud now cd SaveFailed (new_manager now True True)))) \<noteq> []"
proof -
  let ?w = "snd (syncToCloud now cd SaveFailed (new_manager now True True))"
  note r = run_retrying [OF retrying_after_first_failure(1), of n cd now]
  from r have "retrying (run_timers n cd SaveFailed ?w)" by simp
  then have "timers (run_timers n cd SaveFailed ?w) \<noteq> []"
    and "list_all (\<lambda>(h, due, cb). h \<le> lastHandle (run_timers n cd SaveFailed ?w) \<and>
                     cb = RetryCallback) (timers (run_timers n cd SaveFailed ?w))"
    by (simp_all add: retrying_def)
  then have "retry_timers (run_timers n cd SaveFailed ?w) \<noteq> []"
    by (cases "timers (run_timers n cd SaveFailed ?w)") (auto simp: retry_timers_def)
  with r retrying_after_first_failure(2) [of now cd] show ?thesis by simp
qed

end
